theory Spec2Isabelle
  imports Main
begin

section \<open>Byte strings and hexadecimal coding\<close>

text \<open>
  A Go \<open>string\<close> and a Go \<open>[]byte\<close> are both sequences of 8-bit values; both are
  modelled as lists of \<open>char\<close> (an 8-bit type in HOL).
\<close>

type_synonym bytes = string

datatype hex_error = InvalidByteError char | ErrLength

text \<open>\<open>encoding/hex\<close>: the table of digits used by \<open>EncodeToString\<close>.\<close>

definition hextable :: string where
  "hextable = ''0123456789abcdef''"

text \<open>\<open>hex.EncodeToString\<close>: every byte \<open>v\<close> yields \<open>hextable[v>>4]\<close>, \<open>hextable[v&0x0f]\<close>.\<close>

definition EncodeToString :: "bytes \<Rightarrow> string" where
  "EncodeToString src =
     concat (map (\<lambda>v. [hextable ! (of_char v div 16), hextable ! (of_char v mod 16)]) src)"

text \<open>The reverse table of \<open>encoding/hex\<close>: digits, lower and upper case letters.\<close>

definition fromHexChar :: "char \<Rightarrow> nat option" where
  "fromHexChar c =
     (let n = (of_char c :: nat) in
      if 48 \<le> n \<and> n \<le> 57 then Some (n - 48)
      else if 97 \<le> n \<and> n \<le> 102 then Some (n - 97 + 10)
      else if 65 \<le> n \<and> n \<le> 70 then Some (n - 65 + 10)
      else None)"

text \<open>
  \<open>hex.DecodeString\<close>: decodes pairs of digits from the left; at the first invalid
  digit, or at a dangling last digit, it returns the bytes decoded so far together
  with the error.
\<close>

fun DecodeString :: "string \<Rightarrow> bytes \<times> hex_error option" where
  "DecodeString (p # q # rest) =
     (case fromHexChar p of
        None \<Rightarrow> ([], Some (InvalidByteError p))
      | Some a \<Rightarrow>
         (case fromHexChar q of
            None \<Rightarrow> ([], Some (InvalidByteError q))
          | Some b \<Rightarrow>
             (case DecodeString rest of (bs, e) \<Rightarrow> (char_of (a * 16 + b) # bs, e))))"
| "DecodeString [p] =
     (case fromHexChar p of
        None \<Rightarrow> ([], Some (InvalidByteError p))
      | Some a \<Rightarrow> ([], Some ErrLength))"
| "DecodeString [] = ([], None)"

section \<open>Preimage generation\<close>

text \<open>
  \<open>hexBytes = random.Hex\<close>, the constant of \<open>labstack/gommon/random\<close>
  (\<open>Numeric + "abcdef"\<close>).
\<close>

definition hexBytes :: string where
  "hexBytes = ''0123456789abcdef''"

text \<open>
  \<open>rand.Intn n\<close> returns a value in \<open>[0, n)\<close>. The random source is a stream of raw
  draws \<open>rnd :: nat \<Rightarrow> nat\<close>; the \<open>i\<close>-th call reduces the \<open>i\<close>-th draw modulo \<open>n\<close>.
\<close>

definition Intn :: "(nat \<Rightarrow> nat) \<Rightarrow> nat \<Rightarrow> nat \<Rightarrow> nat" where
  "Intn rnd i n = rnd i mod n"

text \<open>\<open>makePreimageHex\<close>: 32 bytes, each picked from \<open>hexBytes\<close>.\<close>

definition makePreimageHex :: "(nat \<Rightarrow> nat) \<Rightarrow> bytes" where
  "makePreimageHex rnd = map (\<lambda>i. hexBytes ! Intn rnd i (length hexBytes)) [0..<32]"

section \<open>Data model\<close>

text \<open>
  The enumerations of package \<open>common\<close> (account kinds, invoice directions and
  invoice states), which the service compares by equality only.
\<close>

datatype AccountType =
  AccountTypeIncoming | AccountTypeCurrent | AccountTypeOutgoing | AccountTypeFees

datatype InvoiceType = InvoiceTypeOutgoing | InvoiceTypeIncoming

datatype InvoiceState =
  InvoiceStateInitialized | InvoiceStateOpen | InvoiceStateSettled | InvoiceStateError

text \<open>\<open>models.Account\<close>.\<close>

record Account =
  acc_ID :: int
  acc_UserID :: int
  acc_Type :: AccountType

text \<open>
  \<open>models.Invoice\<close>. Times are integer nanoseconds; a null time is \<open>None\<close>.
  \<open>DestinationCustomRecords\<close> is a Go map, which may be \<open>nil\<close> (\<open>None\<close>).
\<close>

record Invoice =
  ID :: int
  Type :: InvoiceType
  UserID :: int
  Amount :: int
  Fee :: int
  Memo :: string
  DescriptionHash :: string
  PaymentRequest :: string
  DestinationPubkeyHex :: string
  DestinationCustomRecords :: "(nat \<rightharpoonup> bytes) option"
  RHash :: string
  Preimage :: string
  Internal :: bool
  Keysend :: bool
  State :: InvoiceState
  ErrorMessage :: string
  AddIndex :: nat
  ExpiresAt :: "int option"
  SettledAt :: "int option"

text \<open>\<open>models.TransactionEntry\<close>; an unset id or parent id is 0, Go's zero value.\<close>

record TransactionEntry =
  te_ID :: int
  te_UserID :: int
  te_InvoiceID :: int
  te_ParentID :: int
  te_CreditAccountID :: int
  te_DebitAccountID :: int
  te_Amount :: int

record Route =
  TotalAmt :: int
  TotalFees :: int

text \<open>
  \<open>SendPaymentResponse\<close>. The pointer fields are \<open>None\<close> when \<open>nil\<close>.
\<close>

record SendPaymentResponse =
  PaymentPreimage :: bytes
  PaymentPreimageStr :: string
  PaymentError :: string
  PaymentHash :: bytes
  PaymentHashStr :: string
  PaymentRoute :: "Route option"
  resp_TransactionEntry :: "TransactionEntry option"
  resp_Invoice :: "Invoice option"

text \<open>The zero value \<open>SendPaymentResponse{}\<close>.\<close>

definition SendPaymentResponse_zero :: SendPaymentResponse where
  "SendPaymentResponse_zero =
     \<lparr>PaymentPreimage = [], PaymentPreimageStr = [], PaymentError = [], PaymentHash = [],
      PaymentHashStr = [], PaymentRoute = None, resp_TransactionEntry = None,
      resp_Invoice = None\<rparr>"

section \<open>Errors\<close>

text \<open>
  The errors the service can return or propagate. The last two are not error values of
  the Go code but run-time panics (assignment into a \<open>nil\<close> map, dereference of a
  \<open>nil\<close> route); a panic unwinds through every caller.
\<close>

datatype error =
    NotFound
  | InsufficientBalance
  | StoreError
  | HexError hex_error
  | TransportError string
  | PaymentFailed string
  | PanicNilMap
  | PanicNilRoute

definition is_panic :: "error \<Rightarrow> bool" where
  "is_panic e = (e = PanicNilMap \<or> e = PanicNilRoute)"

text \<open>
  \<open>err.Error()\<close>. Only the texts built by the service itself (\<open>errors.New\<close> of the
  gateway's payment error) and those handed over by the gateway are exact; the
  others are the fixed texts of the libraries, shortened.
\<close>

fun Error :: "error \<Rightarrow> string" where
  "Error NotFound = ''sql: no rows in result set''"
| "Error InsufficientBalance = ''invalid balance''"
| "Error StoreError = ''store error''"
| "Error (HexError ErrLength) = ''encoding/hex: odd length hex string''"
| "Error (HexError (InvalidByteError c)) = ''encoding/hex: invalid byte: '' @ [c]"
| "Error (TransportError m) = m"
| "Error (PaymentFailed m) = m"
| "Error PanicNilMap = ''assignment to entry in nil map''"
| "Error PanicNilRoute = ''invalid memory address or nil pointer dereference''"

section \<open>The Network Gateway\<close>

text \<open>The requests and responses of \<open>lnrpc\<close> that the service builds and reads.\<close>

datatype FeeLimit = FeeLimit_Fixed int | FeeLimit_Percent int

datatype FeatureBit = FeatureBit_TLV_ONION_REQ

record SendRequest =
  req_Dest :: bytes
  req_Amt :: int
  req_PaymentHash :: bytes
  req_PaymentRequest :: string
  req_FeeLimit :: "FeeLimit option"
  req_DestFeatures :: "FeatureBit list"
  req_DestCustomRecords :: "(nat \<rightharpoonup> bytes) option"

record SendResponse =
  lnrpc_PaymentError :: string
  lnrpc_PaymentPreimage :: "bytes option"
  lnrpc_PaymentRoute :: "Route option"
  lnrpc_PaymentHash :: bytes

record lnrpc_Invoice =
  ln_Memo :: string
  ln_DescriptionHash :: bytes
  ln_Value :: int
  ln_RPreimage :: bytes
  ln_Expiry :: int

record AddInvoiceResponse =
  air_RHash :: bytes
  air_PaymentRequest :: string
  air_AddIndex :: nat

text \<open>
  \<open>svc.LndClient\<close>: the two calls of the gateway used here, each either a transport
  error or a response.
\<close>

record LndClient =
  lnd_SendPaymentSync :: "SendRequest \<Rightarrow> error + SendResponse"
  lnd_AddInvoice :: "lnrpc_Invoice \<Rightarrow> error + AddInvoiceResponse"

record LndhubService =
  IdentityPubkey :: string
  LndClient :: LndClient

datatype lnd_call = CallSendPaymentSync SendRequest | CallAddInvoice lnrpc_Invoice

section \<open>The store\<close>

text \<open>
  The state outside the service: the three tables, the schedule of infrastructure
  faults of the store (one flag per statement still to come; \<open>True\<close> makes that
  statement fail), the log of gateway calls made so far, and the reading of the clock
  (\<open>time.Now()\<close>).
\<close>

record World =
  accounts :: "Account list"
  invoices :: "Invoice list"
  transaction_entries :: "TransactionEntry list"
  faults :: "bool list"
  lnd_calls :: "lnd_call list"
  now :: int

text \<open>Every statement sent to the store takes the next flag of the fault schedule.\<close>

definition exec_stmt :: "World \<Rightarrow> bool \<times> World" where
  "exec_stmt w = (case faults w of [] \<Rightarrow> (False, w) | f # fs \<Rightarrow> (f, w\<lparr>faults := fs\<rparr>))"

text \<open>A serial primary key: one more than the largest key in the table.\<close>

definition fresh_id :: "int list \<Rightarrow> int" where
  "fresh_id ids = foldr max ids 0 + 1"

text \<open>
  Modelled from the spec: the balance of a ledger account, computed from the entries
  (amounts credited minus amounts debited); the storage engine's view is not in the
  sources.
\<close>

definition account_balance :: "World \<Rightarrow> int \<Rightarrow> int" where
  "account_balance w aid =
     sum_list (map (\<lambda>e. (if te_CreditAccountID e = aid then te_Amount e else 0)
                       - (if te_DebitAccountID e = aid then te_Amount e else 0))
                   (transaction_entries w))"

text \<open>
  Modelled from the spec: the storage constraint on inserts into the ledger, which is
  not in the sources. An entry is rejected when the account it debits is a \<open>Current\<close>
  account whose balance cannot cover the amount.
\<close>

definition balance_guard_rejects :: "World \<Rightarrow> TransactionEntry \<Rightarrow> bool" where
  "balance_guard_rejects w e =
     list_ex (\<lambda>a. acc_ID a = te_DebitAccountID e \<and> acc_Type a = AccountTypeCurrent
                  \<and> account_balance w (acc_ID a) < te_Amount e)
             (accounts w)"

text \<open>
  \<open>svc.DB.NewInsert().Model(&entry).Exec(ctx)\<close>: the row gets its key, which is
  written back into the model.
\<close>

definition InsertTransactionEntry ::
    "TransactionEntry \<Rightarrow> World \<Rightarrow> (error + TransactionEntry) \<times> World" where
  "InsertTransactionEntry e w =
     (case exec_stmt w of
        (True, w1) \<Rightarrow> (Inl StoreError, w1)
      | (False, w1) \<Rightarrow>
          if balance_guard_rejects w1 e then (Inl InsufficientBalance, w1)
          else
            (let e' = e\<lparr>te_ID := fresh_id (map te_ID (transaction_entries w1))\<rparr>
             in (Inr e', w1\<lparr>transaction_entries := transaction_entries w1 @ [e']\<rparr>)))"

text \<open>\<open>svc.DB.NewInsert().Model(&invoice).Exec(ctx)\<close>.\<close>

definition InsertInvoice :: "Invoice \<Rightarrow> World \<Rightarrow> (error + Invoice) \<times> World" where
  "InsertInvoice i w =
     (case exec_stmt w of
        (True, w1) \<Rightarrow> (Inl StoreError, w1)
      | (False, w1) \<Rightarrow>
          (let i' = i\<lparr>ID := fresh_id (map ID (invoices w1))\<rparr>
           in (Inr i', w1\<lparr>invoices := invoices w1 @ [i']\<rparr>)))"

text \<open>
  \<open>svc.DB.NewUpdate().Model(invoice).WherePK().Exec(ctx)\<close>: the row with the
  invoice's key is replaced as a whole; no matching row is not an error.
\<close>

definition UpdateInvoice :: "Invoice \<Rightarrow> World \<Rightarrow> error option \<times> World" where
  "UpdateInvoice i w =
     (case exec_stmt w of
        (True, w1) \<Rightarrow> (Some StoreError, w1)
      | (False, w1) \<Rightarrow>
          (None, w1\<lparr>invoices := map (\<lambda>r. if ID r = ID i then i else r) (invoices w1)\<rparr>))"

text \<open>
  The select of \<open>SendInternalPayment\<close>: the first incoming invoice with this payment
  request that is still open; no row is the error \<open>sql.ErrNoRows\<close>.
\<close>

definition SelectOpenIncomingInvoice :: "string \<Rightarrow> World \<Rightarrow> (error + Invoice) \<times> World" where
  "SelectOpenIncomingInvoice pr w =
     (case exec_stmt w of
        (True, w1) \<Rightarrow> (Inl StoreError, w1)
      | (False, w1) \<Rightarrow>
          (case find (\<lambda>r. Type r = InvoiceTypeIncoming \<and> PaymentRequest r = pr
                          \<and> State r = InvoiceStateOpen) (invoices w1) of
             None \<Rightarrow> (Inl NotFound, w1)
           | Some r \<Rightarrow> (Inr r, w1)))"

text \<open>
  Modelled from the spec: \<open>AccountFor\<close>, which is not in the sources. It returns the
  existing account of the user and kind or creates it, and fails with a store error
  when persistence fails.
\<close>

definition AccountFor :: "AccountType \<Rightarrow> int \<Rightarrow> World \<Rightarrow> (error + Account) \<times> World" where
  "AccountFor kind uid w =
     (case exec_stmt w of
        (True, w1) \<Rightarrow> (Inl StoreError, w1)
      | (False, w1) \<Rightarrow>
          (case find (\<lambda>a. acc_UserID a = uid \<and> acc_Type a = kind) (accounts w1) of
             Some a \<Rightarrow> (Inr a, w1)
           | None \<Rightarrow>
               (let a = \<lparr>acc_ID = fresh_id (map acc_ID (accounts w1)), acc_UserID = uid,
                         acc_Type = kind\<rparr>
                in (Inr a, w1\<lparr>accounts := accounts w1 @ [a]\<rparr>))))"

text \<open>
  Modelled from the spec: \<open>CurrentUserBalance\<close>, which is not in the sources: the
  balance of the user's \<open>Current\<close> account, computed from the entries.
\<close>

definition CurrentUserBalance :: "int \<Rightarrow> World \<Rightarrow> (error + int) \<times> World" where
  "CurrentUserBalance uid w =
     (case AccountFor AccountTypeCurrent uid w of
        (Inl err, w1) \<Rightarrow> (Inl err, w1)
      | (Inr a, w1) \<Rightarrow>
          (case exec_stmt w1 of
             (True, w2) \<Rightarrow> (Inl StoreError, w2)
           | (False, w2) \<Rightarrow> (Inr (account_balance w2 (acc_ID a)), w2)))"

section \<open>The payment service\<close>

text \<open>
  What the service takes from its libraries: \<open>crypto/sha256\<close>, left open as a
  function on byte strings, and the draws of \<open>math/rand\<close>.
\<close>

record Lib =
  sha256 :: "bytes \<Rightarrow> bytes"
  rnd :: "nat \<Rightarrow> nat"

text \<open>
  The key of the keysend custom record, a constant of the package that is declared
  outside the two source files; no property below depends on its value.
\<close>

definition KEYSEND_CUSTOM_RECORD :: nat where
  "KEYSEND_CUSTOM_RECORD = 5482373484"

text \<open>
  \<open>SendInternalPayment\<close>. As in Go, a response value is returned beside the error;
  it is the zero value on the early returns and the filled one when the last update
  fails.
\<close>

definition SendInternalPayment ::
    "LndhubService \<Rightarrow> Invoice \<Rightarrow> World \<Rightarrow> (SendPaymentResponse \<times> error option) \<times> World" where
  "SendInternalPayment svc invoice w =
     (let sendPaymentResponse = SendPaymentResponse_zero in
      case SelectOpenIncomingInvoice (PaymentRequest invoice) w of
        (Inl err, w1) \<Rightarrow> ((sendPaymentResponse, Some err), w1)
      | (Inr incomingInvoice, w1) \<Rightarrow>
      (case AccountFor AccountTypeCurrent (UserID incomingInvoice) w1 of
        (Inl err, w2) \<Rightarrow> ((sendPaymentResponse, Some err), w2)
      | (Inr recipientCreditAccount, w2) \<Rightarrow>
      (case AccountFor AccountTypeIncoming (UserID incomingInvoice) w2 of
        (Inl err, w3) \<Rightarrow> ((sendPaymentResponse, Some err), w3)
      | (Inr recipientDebitAccount, w3) \<Rightarrow>
      (let recipientEntry =
             \<lparr>te_ID = 0, te_UserID = UserID incomingInvoice,
              te_InvoiceID = ID incomingInvoice, te_ParentID = 0,
              te_CreditAccountID = acc_ID recipientCreditAccount,
              te_DebitAccountID = acc_ID recipientDebitAccount,
              te_Amount = Amount invoice\<rparr>
       in case InsertTransactionEntry recipientEntry w3 of
        (Inl err, w4) \<Rightarrow> ((sendPaymentResponse, Some err), w4)
      | (Inr inserted, w4) \<Rightarrow>
      (let preimage = fst (DecodeString (Preimage incomingInvoice));
           paymentHash = fst (DecodeString (RHash invoice));
           sendPaymentResponse =
             sendPaymentResponse
               \<lparr>PaymentPreimageStr := Preimage incomingInvoice,
                PaymentPreimage := preimage,
                resp_Invoice := Some invoice,
                PaymentHashStr := RHash invoice,
                PaymentHash := paymentHash,
                PaymentRoute := Some \<lparr>TotalAmt = Amount invoice, TotalFees = 0\<rparr>\<rparr>;
           incomingInvoice =
             incomingInvoice
               \<lparr>Internal := True, State := InvoiceStateSettled, SettledAt := Some (now w4)\<rparr>
       in case UpdateInvoice incomingInvoice w4 of
            (Some err, w5) \<Rightarrow> ((sendPaymentResponse, Some err), w5)
          | (None, w5) \<Rightarrow> ((sendPaymentResponse, None), w5))))))"

text \<open>
  \<open>createLnRpcSendRequest\<close>. For a keysend payment the preimage is written into the
  invoice's custom records, a map the invoice shares with the request, so the invoice
  is returned as well. Writing into a \<open>nil\<close> map panics.
\<close>

definition createLnRpcSendRequest :: "Lib \<Rightarrow> Invoice \<Rightarrow> (error + SendRequest) \<times> Invoice" where
  "createLnRpcSendRequest lib invoice =
     (let feeLimit = FeeLimit_Fixed 300 in
      if \<not> Keysend invoice then
        (Inr \<lparr>req_Dest = [], req_Amt = Amount invoice, req_PaymentHash = [],
              req_PaymentRequest = PaymentRequest invoice, req_FeeLimit = Some feeLimit,
              req_DestFeatures = [], req_DestCustomRecords = None\<rparr>, invoice)
      else
        (let preImage = makePreimageHex (rnd lib);
             pHash = sha256 lib preImage
         in case DecodeString (DestinationPubkeyHex invoice) of
              (destBytes, Some err) \<Rightarrow> (Inl (HexError err), invoice)
            | (destBytes, None) \<Rightarrow>
                (case DestinationCustomRecords invoice of
                   None \<Rightarrow> (Inl PanicNilMap, invoice)
                 | Some records \<Rightarrow>
                     (let invoice =
                            invoice\<lparr>DestinationCustomRecords :=
                                      Some (records(KEYSEND_CUSTOM_RECORD \<mapsto> preImage))\<rparr>
                      in (Inr \<lparr>req_Dest = destBytes, req_Amt = Amount invoice,
                                req_PaymentHash = pHash, req_PaymentRequest = [],
                                req_FeeLimit = Some feeLimit,
                                req_DestFeatures = [FeatureBit_TLV_ONION_REQ],
                                req_DestCustomRecords = DestinationCustomRecords invoice\<rparr>,
                          invoice)))))"

text \<open>
  \<open>SendPaymentSync\<close>. The call of the gateway is appended to the log of gateway calls.
  Reading the route of a response that has none panics.
\<close>

definition SendPaymentSync ::
    "LndhubService \<Rightarrow> Lib \<Rightarrow> Invoice \<Rightarrow> World
       \<Rightarrow> (SendPaymentResponse \<times> error option) \<times> Invoice \<times> World" where
  "SendPaymentSync svc lib invoice w =
     (let sendPaymentResponse = SendPaymentResponse_zero in
      case createLnRpcSendRequest lib invoice of
        (Inl err, invoice) \<Rightarrow> ((sendPaymentResponse, Some err), invoice, w)
      | (Inr sendPaymentRequest, invoice) \<Rightarrow>
      (let w = w\<lparr>lnd_calls := lnd_calls w @ [CallSendPaymentSync sendPaymentRequest]\<rparr>
       in case lnd_SendPaymentSync (LndClient svc) sendPaymentRequest of
            Inl err \<Rightarrow> ((sendPaymentResponse, Some err), invoice, w)
          | Inr sendPaymentResult \<Rightarrow>
              if lnrpc_PaymentError sendPaymentResult \<noteq> []
                 \<or> lnrpc_PaymentPreimage sendPaymentResult = None
              then ((sendPaymentResponse,
                     Some (PaymentFailed (lnrpc_PaymentError sendPaymentResult))), invoice, w)
              else
                (let preimage = the (lnrpc_PaymentPreimage sendPaymentResult);
                     paymentHash = lnrpc_PaymentHash sendPaymentResult
                 in case lnrpc_PaymentRoute sendPaymentResult of
                      None \<Rightarrow> ((sendPaymentResponse, Some PanicNilRoute), invoice, w)
                    | Some route \<Rightarrow>
                        ((sendPaymentResponse
                            \<lparr>PaymentPreimage := preimage,
                             PaymentPreimageStr := EncodeToString preimage,
                             PaymentHash := paymentHash,
                             PaymentHashStr := EncodeToString paymentHash,
                             PaymentRoute :=
                               Some \<lparr>TotalAmt = TotalAmt route,
                                     TotalFees = TotalFees route\<rparr>\<rparr>,
                          None), invoice, w))))"

text \<open>
  \<open>HandleFailedPayment\<close>: the reversing entry, then the invoice in state \<open>Error\<close>. The
  invoice is a pointer in Go; the changed invoice is returned.
\<close>

definition HandleFailedPayment ::
    "Invoice \<Rightarrow> TransactionEntry \<Rightarrow> error option \<Rightarrow> World
       \<Rightarrow> error option \<times> Invoice \<times> World" where
  "HandleFailedPayment invoice entryToRevert failedPaymentError w =
     (let entry =
            \<lparr>te_ID = 0, te_UserID = UserID invoice, te_InvoiceID = ID invoice,
             te_ParentID = 0,
             te_CreditAccountID = te_DebitAccountID entryToRevert,
             te_DebitAccountID = te_CreditAccountID entryToRevert,
             te_Amount = Amount invoice\<rparr>
      in case InsertTransactionEntry entry w of
           (Inl err, w1) \<Rightarrow> (Some err, invoice, w1)
         | (Inr inserted, w1) \<Rightarrow>
             (let invoice = invoice\<lparr>State := InvoiceStateError\<rparr>;
                  invoice =
                    (case failedPaymentError of
                       None \<Rightarrow> invoice
                     | Some e \<Rightarrow> invoice\<lparr>ErrorMessage := Error e\<rparr>)
              in case UpdateInvoice invoice w1 of
                   (err, w2) \<Rightarrow> (err, invoice, w2)))"

text \<open>
  \<open>HandleSuccessfulPayment\<close>: the invoice in state \<open>Settled\<close> (a failure of this update
  is logged and then dropped), the fee entry, and the balance read back, whose sign is
  only reported.
\<close>

definition HandleSuccessfulPayment ::
    "Invoice \<Rightarrow> TransactionEntry \<Rightarrow> World \<Rightarrow> error option \<times> Invoice \<times> World" where
  "HandleSuccessfulPayment invoice parentEntry w =
     (let invoice = invoice\<lparr>State := InvoiceStateSettled, SettledAt := Some (now w)\<rparr>
      in case UpdateInvoice invoice w of
        (dropped, w1) \<Rightarrow>
      (case AccountFor AccountTypeFees (UserID invoice) w1 of
        (Inl err, w2) \<Rightarrow> (Some err, invoice, w2)
      | (Inr feeAccount, w2) \<Rightarrow>
      (let entry =
             \<lparr>te_ID = 0, te_UserID = UserID invoice, te_InvoiceID = ID invoice,
              te_ParentID = te_ID parentEntry,
              te_CreditAccountID = acc_ID feeAccount,
              te_DebitAccountID = te_DebitAccountID parentEntry,
              te_Amount = Fee invoice\<rparr>
       in case InsertTransactionEntry entry w2 of
        (Inl err, w3) \<Rightarrow> (Some err, invoice, w3)
      | (Inr entry, w3) \<Rightarrow>
      (case CurrentUserBalance (te_UserID entry) w3 of
        (Inl err, w4) \<Rightarrow> (Some err, invoice, w4)
      | (Inr userBalance, w4) \<Rightarrow> (None, invoice, w4)))))"

text \<open>
  The routing step of \<open>PayInvoice\<close> (the \<open>if\<close> on the destination public key).
\<close>

definition route_payment ::
    "LndhubService \<Rightarrow> Lib \<Rightarrow> Invoice \<Rightarrow> World
       \<Rightarrow> (SendPaymentResponse \<times> error option) \<times> Invoice \<times> World" where
  "route_payment svc lib invoice w =
     (if IdentityPubkey svc = DestinationPubkeyHex invoice then
        (case SendInternalPayment svc invoice w of (r, w1) \<Rightarrow> (r, invoice, w1))
      else SendPaymentSync svc lib invoice w)"

text \<open>
  \<open>PayInvoice\<close>. The result is the pair Go returns (response pointer, error), the
  invoice as the call leaves it, and the world. A panic of the routing step unwinds
  through \<open>PayInvoice\<close>: nothing after it runs, and it is shown as the error of the
  pair. The response points to the caller's invoice, so it shows the invoice as it is
  at the end.
\<close>

definition PayInvoice ::
    "LndhubService \<Rightarrow> Lib \<Rightarrow> Invoice \<Rightarrow> World
       \<Rightarrow> (SendPaymentResponse option \<times> error option) \<times> Invoice \<times> World" where
  "PayInvoice svc lib invoice w =
     (let userId = UserID invoice in
      case AccountFor AccountTypeCurrent userId w of
        (Inl err, w1) \<Rightarrow> ((None, Some err), invoice, w1)
      | (Inr debitAccount, w1) \<Rightarrow>
      (case AccountFor AccountTypeOutgoing userId w1 of
        (Inl err, w2) \<Rightarrow> ((None, Some err), invoice, w2)
      | (Inr creditAccount, w2) \<Rightarrow>
      (let entry =
             \<lparr>te_ID = 0, te_UserID = userId, te_InvoiceID = ID invoice, te_ParentID = 0,
              te_CreditAccountID = acc_ID creditAccount,
              te_DebitAccountID = acc_ID debitAccount,
              te_Amount = Amount invoice\<rparr>
       in case InsertTransactionEntry entry w2 of
        (Inl err, w3) \<Rightarrow> ((None, Some err), invoice, w3)
      | (Inr entry, w3) \<Rightarrow>
      (case route_payment svc lib invoice w3 of
        ((paymentResponse, Some err), invoice, w4) \<Rightarrow>
          if is_panic err then ((None, Some err), invoice, w4)
          else
            (case HandleFailedPayment invoice entry (Some err) w4 of
               (ignored, invoice, w5) \<Rightarrow> ((None, Some err), invoice, w5))
      | ((paymentResponse, None), invoice, w4) \<Rightarrow>
          (let paymentResponse = paymentResponse\<lparr>resp_TransactionEntry := Some entry\<rparr>
           in case PaymentRoute paymentResponse of
                None \<Rightarrow> ((None, Some PanicNilRoute), invoice, w4)
              | Some route \<Rightarrow>
                  (let invoice =
                         invoice\<lparr>Preimage := PaymentPreimageStr paymentResponse,
                                 Fee := TotalFees route\<rparr>
                   in case HandleSuccessfulPayment invoice entry w4 of
                        (err, invoice, w5) \<Rightarrow>
                          ((Some (paymentResponse
                                    \<lparr>resp_Invoice :=
                                        map_option (\<lambda>p. invoice)
                                          (resp_Invoice paymentResponse)\<rparr>),
                            err), invoice, w5)))))))"

text \<open>\<open>time.Duration\<close> in nanoseconds.\<close>

definition Second :: int where
  "Second = 1000000000"

definition Hour :: int where
  "Hour = 3600 * Second"

text \<open>
  \<open>int64(d.Seconds())\<close>: the whole seconds of a duration (the conversion through
  \<open>float64\<close> is exact for the one duration it is applied to, 24 hours).
\<close>

definition Seconds :: "int \<Rightarrow> int" where
  "Seconds d = d div Second"

text \<open>
  \<open>AddIncomingInvoice\<close>. Go returns a pointer to the invoice or an error, never both.
\<close>

definition AddIncomingInvoice ::
    "LndhubService \<Rightarrow> Lib \<Rightarrow> int \<Rightarrow> int \<Rightarrow> string \<Rightarrow> string \<Rightarrow> World
       \<Rightarrow> (error + Invoice) \<times> World" where
  "AddIncomingInvoice svc lib userID amount memo descriptionHashStr w =
     (let preimage = makePreimageHex (rnd lib);
          expiry = Hour * 24;
          invoice =
            \<lparr>ID = 0, Type = InvoiceTypeIncoming, UserID = userID, Amount = amount, Fee = 0,
             Memo = memo, DescriptionHash = descriptionHashStr, PaymentRequest = [],
             DestinationPubkeyHex = [], DestinationCustomRecords = None, RHash = [],
             Preimage = [], Internal = False, Keysend = False,
             State = InvoiceStateInitialized, ErrorMessage = [], AddIndex = 0,
             ExpiresAt = Some (now w + expiry), SettledAt = None\<rparr>
      in case InsertInvoice invoice w of
        (Inl err, w1) \<Rightarrow> (Inl err, w1)
      | (Inr invoice, w1) \<Rightarrow>
      (case DecodeString descriptionHashStr of
        (descriptionHash, Some err) \<Rightarrow> (Inl (HexError err), w1)
      | (descriptionHash, None) \<Rightarrow>
      (let lnInvoice =
             \<lparr>ln_Memo = memo, ln_DescriptionHash = descriptionHash, ln_Value = amount,
              ln_RPreimage = preimage, ln_Expiry = Seconds expiry\<rparr>;
           w2 = w1\<lparr>lnd_calls := lnd_calls w1 @ [CallAddInvoice lnInvoice]\<rparr>
       in case lnd_AddInvoice (LndClient svc) lnInvoice of
        Inl err \<Rightarrow> (Inl err, w2)
      | Inr lnInvoiceResult \<Rightarrow>
      (let invoice =
             invoice\<lparr>PaymentRequest := air_PaymentRequest lnInvoiceResult,
                     RHash := EncodeToString (air_RHash lnInvoiceResult),
                     Preimage := EncodeToString preimage,
                     AddIndex := air_AddIndex lnInvoiceResult,
                     DestinationPubkeyHex := IdentityPubkey svc,
                     State := InvoiceStateOpen\<rparr>
       in case UpdateInvoice invoice w2 of
            (Some err, w3) \<Rightarrow> (Inl err, w3)
          | (None, w3) \<Rightarrow> (Inr invoice, w3)))))"

section \<open>Notions used in the statements\<close>

text \<open>The first \<open>n\<close> statements still to be sent to the store meet no infrastructure fault.\<close>

definition no_faults :: "nat \<Rightarrow> World \<Rightarrow> bool" where
  "no_faults n w = (True \<notin> set (take n (faults w)))"

text \<open>The primary key of the accounts table.\<close>

definition accounts_keyed :: "World \<Rightarrow> bool" where
  "accounts_keyed w = distinct (map acc_ID (accounts w))"

text \<open>The row \<open>AddIncomingInvoice\<close> builds before it is saved, at clock reading \<open>t\<close>.\<close>

definition new_incoming_invoice :: "int \<Rightarrow> int \<Rightarrow> string \<Rightarrow> string \<Rightarrow> int \<Rightarrow> Invoice" where
  "new_incoming_invoice userID amount memo dh t =
     \<lparr>ID = 0, Type = InvoiceTypeIncoming, UserID = userID, Amount = amount, Fee = 0,
      Memo = memo, DescriptionHash = dh, PaymentRequest = [],
      DestinationPubkeyHex = [], DestinationCustomRecords = None, RHash = [],
      Preimage = [], Internal = False, Keysend = False,
      State = InvoiceStateInitialized, ErrorMessage = [], AddIndex = 0,
      ExpiresAt = Some (t + Hour * 24), SettledAt = None\<rparr>"

text \<open>The request \<open>AddIncomingInvoice\<close> sends to the gateway.\<close>

definition new_lnInvoice :: "string \<Rightarrow> bytes \<Rightarrow> int \<Rightarrow> bytes \<Rightarrow> lnrpc_Invoice" where
  "new_lnInvoice memo descriptionHash amount preimage =
     \<lparr>ln_Memo = memo, ln_DescriptionHash = descriptionHash, ln_Value = amount,
      ln_RPreimage = preimage, ln_Expiry = Seconds (Hour * 24)\<rparr>"



text \<open>The row the select of \<open>SendInternalPayment\<close> finds for a payment request, if any.\<close>

definition open_incoming :: "string \<Rightarrow> World \<Rightarrow> Invoice option" where
  "open_incoming pr w =
     find (\<lambda>x. Type x = InvoiceTypeIncoming \<and> PaymentRequest x = pr
                \<and> State x = InvoiceStateOpen) (invoices w)"

text \<open>The recipient's invoice as \<open>SendInternalPayment\<close> writes it back at clock reading \<open>t\<close>.\<close>

definition settled_internally :: "Invoice \<Rightarrow> int \<Rightarrow> Invoice" where
  "settled_internally inc t =
     inc\<lparr>Internal := True, State := InvoiceStateSettled, SettledAt := Some t\<rparr>"

text \<open>What an entry adds to the balance of an account.\<close>

definition entry_effect :: "int \<Rightarrow> TransactionEntry \<Rightarrow> int" where
  "entry_effect aid e =
     (if te_CreditAccountID e = aid then te_Amount e else 0)
     - (if te_DebitAccountID e = aid then te_Amount e else 0)"

text \<open>
  The provisional (principal) entry of \<open>PayInvoice\<close> for an invoice: it debits the
  payer's current account and credits the payer's outgoing account with the amount of
  the invoice.
\<close>

definition principal_of :: "Invoice \<Rightarrow> World \<Rightarrow> TransactionEntry \<Rightarrow> bool" where
  "principal_of invoice w p =
     (te_UserID p = UserID invoice \<and> te_InvoiceID p = ID invoice
      \<and> te_Amount p = Amount invoice \<and> te_ParentID p = 0
      \<and> (\<exists>d \<in> set (accounts w). \<exists>c \<in> set (accounts w).
            acc_UserID d = UserID invoice \<and> acc_Type d = AccountTypeCurrent
            \<and> te_DebitAccountID p = acc_ID d
            \<and> acc_UserID c = UserID invoice \<and> acc_Type c = AccountTypeOutgoing
            \<and> te_CreditAccountID p = acc_ID c))"

text \<open>Entry \<open>r\<close> is the exact reversal of entry \<open>p\<close>.\<close>

definition reverses :: "TransactionEntry \<Rightarrow> TransactionEntry \<Rightarrow> bool" where
  "reverses p r =
     (te_CreditAccountID r = te_DebitAccountID p \<and> te_DebitAccountID r = te_CreditAccountID p
      \<and> te_Amount r = te_Amount p \<and> te_UserID r = te_UserID p
      \<and> te_InvoiceID r = te_InvoiceID p)"

text \<open>
  Entry \<open>f\<close> is the fee entry riding on the principal entry \<open>p\<close> of an invoice: it
  credits the payer's fees account, debits what \<open>p\<close> debits, and carries the fee of the
  invoice.
\<close>

definition fee_of :: "TransactionEntry \<Rightarrow> Invoice \<Rightarrow> World \<Rightarrow> TransactionEntry \<Rightarrow> bool" where
  "fee_of p invoice w f =
     (te_ParentID f = te_ID p \<and> te_Amount f = Fee invoice
      \<and> te_DebitAccountID f = te_DebitAccountID p
      \<and> te_UserID f = UserID invoice \<and> te_InvoiceID f = ID invoice
      \<and> (\<exists>a \<in> set (accounts w). acc_UserID a = UserID invoice
            \<and> acc_Type a = AccountTypeFees \<and> te_CreditAccountID f = acc_ID a))"

text \<open>The calls of the gateway that paying an invoice makes: none, or one payment.\<close>

definition gateway_calls :: "LndhubService \<Rightarrow> Lib \<Rightarrow> Invoice \<Rightarrow> lnd_call list" where
  "gateway_calls svc lib invoice =
     (if IdentityPubkey svc = DestinationPubkeyHex invoice then []
      else (case createLnRpcSendRequest lib invoice of
              (Inl e, i) \<Rightarrow> []
            | (Inr req, i) \<Rightarrow> [CallSendPaymentSync req]))"

text \<open>
  The three shapes in which a run of \<open>PayInvoice\<close> can end. They are stated for the
  result pair \<open>(resp, err)\<close>, the invoice \<open>invoice'\<close> and the world \<open>w'\<close> the run leaves,
  the principal entry \<open>p\<close>, the entries \<open>mid\<close> the routing step added (at most the
  recipient's entry of an internal payment) and the invoice \<open>invoice1\<close> as the routing
  step left it.
\<close>

definition pay_early ::
    "Invoice \<Rightarrow> World \<Rightarrow> SendPaymentResponse option \<Rightarrow> error option \<Rightarrow> Invoice \<Rightarrow> World \<Rightarrow> bool" where
  "pay_early invoice w resp err invoice' w' =
     (resp = None \<and> (err = Some StoreError \<or> err = Some InsufficientBalance)
      \<and> (faults w = [] \<longrightarrow> err = Some InsufficientBalance \<and> faults w' = [])
      \<and> (accounts_keyed w \<longrightarrow> accounts_keyed w')
      \<and> transaction_entries w' = transaction_entries w \<and> invoices w' = invoices w
      \<and> lnd_calls w' = lnd_calls w \<and> invoice' = invoice)"

definition pay_routed ::
    "LndhubService \<Rightarrow> Lib \<Rightarrow> Invoice \<Rightarrow> World \<Rightarrow> TransactionEntry \<Rightarrow> TransactionEntry list
       \<Rightarrow> Invoice \<Rightarrow> World \<Rightarrow> bool" where
  "pay_routed svc lib invoice w p mid invoice1 w' =
     (principal_of invoice w' p
      \<and> te_ID p = fresh_id (map te_ID (transaction_entries w))
      \<and> invoice1 = invoice\<lparr>DestinationCustomRecords := DestinationCustomRecords invoice1\<rparr>
      \<and> lnd_calls w' = lnd_calls w @ gateway_calls svc lib invoice
      \<and> (faults w = [] \<longrightarrow> faults w' = [])
      \<and> (accounts_keyed w \<longrightarrow> accounts_keyed w')
      \<and> (mid = []
          \<or> IdentityPubkey svc = DestinationPubkeyHex invoice
            \<and> (\<exists>e inc. mid = [e] \<and> open_incoming (PaymentRequest invoice) w = Some inc
                  \<and> te_Amount e = Amount invoice \<and> te_ParentID e = 0
                  \<and> te_InvoiceID e = ID inc \<and> te_UserID e = UserID inc)))"

definition pay_failed ::
    "LndhubService \<Rightarrow> Invoice \<Rightarrow> World \<Rightarrow> TransactionEntry \<Rightarrow> TransactionEntry list \<Rightarrow> Invoice
       \<Rightarrow> SendPaymentResponse option \<Rightarrow> error option \<Rightarrow> Invoice \<Rightarrow> World \<Rightarrow> bool" where
  "pay_failed svc invoice w p mid invoice1 resp err invoice' w' =
     (resp = None
      \<and> (\<exists>e. err = Some e
           \<and> (transaction_entries w' = transaction_entries w @ p # mid
                \<and> invoice' = invoice1
                \<and> (is_panic e \<longrightarrow>
                      mid = [] \<and> IdentityPubkey svc \<noteq> DestinationPubkeyHex invoice)
                \<and> (faults w = [] \<and> accounts_keyed w \<longrightarrow> is_panic e)
              \<or> \<not> is_panic e
                \<and> (\<exists>rev. transaction_entries w' = transaction_entries w @ p # mid @ [rev]
                      \<and> reverses p rev \<and> te_ParentID rev = 0)
                \<and> invoice' = invoice1\<lparr>State := InvoiceStateError, ErrorMessage := Error e\<rparr>)
           \<and> (faults w = [] \<and> accounts_keyed w \<longrightarrow> mid = [])
           \<and> (faults w = [] \<and> accounts_keyed w
                 \<and> IdentityPubkey svc = DestinationPubkeyHex invoice
                \<longrightarrow> e = NotFound \<and> open_incoming (PaymentRequest invoice) w = None)
           \<and> (invoices w' = invoices w
               \<or> invoices w' = map (\<lambda>x. if ID x = ID invoice then invoice' else x) (invoices w))))"

definition pay_settled ::
    "LndhubService \<Rightarrow> Invoice \<Rightarrow> World \<Rightarrow> TransactionEntry \<Rightarrow> TransactionEntry list \<Rightarrow> Invoice
       \<Rightarrow> SendPaymentResponse option \<Rightarrow> error option \<Rightarrow> Invoice \<Rightarrow> World \<Rightarrow> bool" where
  "pay_settled svc invoice w p mid invoice1 resp err invoice' w' =
     (\<exists>r route. resp = Some r \<and> PaymentRoute r = Some route
        \<and> (IdentityPubkey svc = DestinationPubkeyHex invoice \<longrightarrow> TotalFees route = 0)
        \<and> (faults w = [] \<longrightarrow> err = None \<or> err = Some InsufficientBalance)
        \<and> (IdentityPubkey svc = DestinationPubkeyHex invoice \<longrightarrow> mid \<noteq> [])
        \<and> resp_TransactionEntry r = Some p
        \<and> invoice' = invoice1\<lparr>Preimage := PaymentPreimageStr r, Fee := TotalFees route,
                               State := InvoiceStateSettled, SettledAt := Some (now w)\<rparr>
        \<and> ((\<exists>e. err = Some e \<and> (e = StoreError \<or> e = InsufficientBalance))
             \<and> transaction_entries w' = transaction_entries w @ p # mid
           \<or> (err = None \<or> err = Some StoreError)
             \<and> (\<exists>f. transaction_entries w' = transaction_entries w @ p # mid @ [f]
                   \<and> fee_of p invoice' w' f))
        \<and> (\<exists>rows.
              (invoices w' = rows
               \<or> invoices w' = map (\<lambda>x. if ID x = ID invoice then invoice' else x) rows)
              \<and> (faults w = [] \<longrightarrow>
                    invoices w' = map (\<lambda>x. if ID x = ID invoice then invoice' else x) rows)
              \<and> (if IdentityPubkey svc = DestinationPubkeyHex invoice
                  then \<exists>inc. open_incoming (PaymentRequest invoice) w = Some inc
                         \<and> rows = map (\<lambda>x. if ID x = ID inc
                                            then settled_internally inc (now w) else x)
                                       (invoices w)
                  else rows = invoices w)))"

section \<open>Sample inputs\<close>

text \<open>
  Concrete inputs on which the theorems below are instantiated: a library whose hash
  is a stand-in (the first four bytes), two gateways, a few invoices and worlds.
\<close>

definition sample_lib :: Lib where
  "sample_lib = \<lparr>sha256 = take 4, rnd = (\<lambda>i. i)\<rparr>"

definition gateway_ok :: LndClient where
  "gateway_ok =
     \<lparr>lnd_SendPaymentSync =
        (\<lambda>req. Inr \<lparr>lnrpc_PaymentError = [], lnrpc_PaymentPreimage = Some ''pre'',
                     lnrpc_PaymentRoute = Some \<lparr>TotalAmt = 501, TotalFees = 1\<rparr>,
                     lnrpc_PaymentHash = ''hash''\<rparr>),
      lnd_AddInvoice =
        (\<lambda>i. Inr \<lparr>air_RHash = ''hash'', air_PaymentRequest = ''lnbc500'',
                   air_AddIndex = 7\<rparr>)\<rparr>"

definition gateway_failing :: LndClient where
  "gateway_failing =
     \<lparr>lnd_SendPaymentSync =
        (\<lambda>req. Inr \<lparr>lnrpc_PaymentError = ''no_route'', lnrpc_PaymentPreimage = None,
                     lnrpc_PaymentRoute = None, lnrpc_PaymentHash = []\<rparr>),
      lnd_AddInvoice = (\<lambda>i. Inl (TransportError ''unavailable''))\<rparr>"

definition svc_ok :: LndhubService where
  "svc_ok = \<lparr>IdentityPubkey = ''02aa'', LndClient = gateway_ok\<rparr>"

definition svc_failing :: LndhubService where
  "svc_failing = \<lparr>IdentityPubkey = ''02aa'', LndClient = gateway_failing\<rparr>"

text \<open>An outgoing invoice of user 1 over 500, to be paid to the node \<open>dest\<close>.\<close>

definition outgoing_invoice :: "int \<Rightarrow> string \<Rightarrow> Invoice" where
  "outgoing_invoice k dest =
     \<lparr>ID = k, Type = InvoiceTypeOutgoing, UserID = 1, Amount = 500, Fee = 0,
      Memo = [], DescriptionHash = [], PaymentRequest = ''lnbc500'',
      DestinationPubkeyHex = dest, DestinationCustomRecords = None, RHash = ''6a'',
      Preimage = [], Internal = False, Keysend = False,
      State = InvoiceStateInitialized, ErrorMessage = [], AddIndex = 0,
      ExpiresAt = None, SettledAt = None\<rparr>"

text \<open>The open incoming invoice of user 2 for the same payment request.\<close>

definition incoming_invoice :: Invoice where
  "incoming_invoice =
     \<lparr>ID = 1, Type = InvoiceTypeIncoming, UserID = 2, Amount = 500, Fee = 0,
      Memo = [], DescriptionHash = [], PaymentRequest = ''lnbc500'',
      DestinationPubkeyHex = ''02aa'', DestinationCustomRecords = None, RHash = ''6a'',
      Preimage = ''6b6c'', Internal = False, Keysend = False,
      State = InvoiceStateOpen, ErrorMessage = [], AddIndex = 7,
      ExpiresAt = None, SettledAt = None\<rparr>"

text \<open>
  A world in which user 1 holds \<open>b\<close> on the current account (account 1), funded from the
  incoming account (account 5), and user 2 has the open incoming invoice.
\<close>

definition sample_world :: "int \<Rightarrow> World" where
  "sample_world b =
     \<lparr>accounts =
        [\<lparr>acc_ID = 1, acc_UserID = 1, acc_Type = AccountTypeCurrent\<rparr>,
         \<lparr>acc_ID = 2, acc_UserID = 1, acc_Type = AccountTypeOutgoing\<rparr>,
         \<lparr>acc_ID = 3, acc_UserID = 2, acc_Type = AccountTypeCurrent\<rparr>,
         \<lparr>acc_ID = 4, acc_UserID = 2, acc_Type = AccountTypeIncoming\<rparr>,
         \<lparr>acc_ID = 5, acc_UserID = 1, acc_Type = AccountTypeIncoming\<rparr>,
         \<lparr>acc_ID = 6, acc_UserID = 1, acc_Type = AccountTypeFees\<rparr>],
      invoices = [incoming_invoice, outgoing_invoice 2 ''02aa'', outgoing_invoice 3 ''03bb''],
      transaction_entries =
        [\<lparr>te_ID = 1, te_UserID = 1, te_InvoiceID = 0, te_ParentID = 0,
          te_CreditAccountID = 1, te_DebitAccountID = 5, te_Amount = b\<rparr>],
      faults = [],
      lnd_calls = [],
      now = 1000\<rparr>"

section \<open>Properties of the hexadecimal coding and of the preimages\<close>

lemma length_makePreimageHex: "length (makePreimageHex r) = 32"
  by (simp add: makePreimageHex_def)

lemma set_makePreimageHex: "set (makePreimageHex r) \<subseteq> set hexBytes"
proof -
  have "hexBytes ! Intn r i (length hexBytes) \<in> set hexBytes" for i
    by (rule nth_mem) (simp add: Intn_def hexBytes_def)
  then show ?thesis
    by (auto simp: makePreimageHex_def)
qed

lemma lt16_cases:
  assumes "k < (16::nat)"
  shows "k \<in> {0,1,2,3,4,5,6,7,8,9,10,11,12,13,14,15}"
  using assms by (simp only: insert_iff empty_iff) arith

lemma fromHexChar_hextable:
  assumes "k < 16"
  shows "fromHexChar (hextable ! k) = Some k"
  using lt16_cases [OF assms] by (auto simp: fromHexChar_def hextable_def)

lemma of_char_div16: "(of_char v :: nat) div 16 < 16"
proof -
  have "(of_char v :: nat) < 256" by simp
  then show ?thesis by arith
qed

lemma DecodeString_EncodeToString: "DecodeString (EncodeToString bs) = (bs, None)"
  by (induction bs) (simp_all add: EncodeToString_def fromHexChar_hextable of_char_div16)

lemma card_hexBytes: "card (set hexBytes) = 16"
  by (simp add: hexBytes_def)

section \<open>The store: what each statement changes\<close>

lemma fresh_id_greater: "x \<in> set ids \<Longrightarrow> x < fresh_id ids"
  unfolding fresh_id_def by (induction ids) auto

lemma fresh_id_notin: "fresh_id ids \<notin> set ids"
  using fresh_id_greater [of "fresh_id ids" ids] by auto

lemma exec_stmt_frame:
  assumes "exec_stmt w = (f, w1)"
  shows "accounts w1 = accounts w" and "invoices w1 = invoices w"
    and "transaction_entries w1 = transaction_entries w" and "lnd_calls w1 = lnd_calls w"
    and "now w1 = now w" and "faults w1 = tl (faults w)"
  using assms by (auto simp: exec_stmt_def split: list.splits)

lemma exec_stmt_no_faults:
  assumes "exec_stmt w = (f, w1)" and "no_faults (Suc n) w"
  shows "\<not> f" and "no_faults n w1"
  using assms by (auto simp: exec_stmt_def no_faults_def split: list.splits)

lemma exec_stmt_balance [simp]:
  "exec_stmt w = (f, w1) \<Longrightarrow> account_balance w1 a = account_balance w a"
  by (simp add: account_balance_def exec_stmt_frame)

lemma AccountFor_frame:
  assumes "AccountFor k u w = (r, w1)"
  shows "invoices w1 = invoices w" and "transaction_entries w1 = transaction_entries w"
    and "lnd_calls w1 = lnd_calls w" and "now w1 = now w" and "faults w1 = tl (faults w)"
  using assms
  by (auto simp: AccountFor_def Let_def exec_stmt_frame
           split: prod.splits bool.splits option.splits)

lemma AccountFor_result:
  assumes "AccountFor k u w = (r, w1)"
  shows "(r = Inl StoreError \<and> accounts w1 = accounts w)
       \<or> (\<exists>a. r = Inr a \<and> acc_UserID a = u \<and> acc_Type a = k \<and> a \<in> set (accounts w1)
              \<and> (accounts w1 = accounts w
                  \<or> accounts w1 = accounts w @ [a]
                    \<and> acc_ID a = fresh_id (map acc_ID (accounts w))))"
  using assms
  by (auto simp: AccountFor_def Let_def exec_stmt_frame find_Some_iff
           split: prod.splits bool.splits option.splits)

lemma AccountFor_no_faults:
  assumes "AccountFor k u w = (r, w1)" and "no_faults (Suc n) w"
  shows "r \<noteq> Inl StoreError" and "no_faults n w1"
  using assms
  by (auto simp: AccountFor_def Let_def no_faults_def exec_stmt_def
           split: prod.splits bool.splits option.splits list.splits)

lemma AccountFor_error:
  assumes "AccountFor k u w = (Inl e, w1)"
  shows "e = StoreError" and "accounts w1 = accounts w"
  using AccountFor_result [OF assms] by auto

lemma AccountFor_keyed:
  assumes "AccountFor k u w = (r, w1)" and "accounts_keyed w"
  shows "accounts_keyed w1"
  using AccountFor_result [OF assms(1)] assms(2) fresh_id_notin [of "map acc_ID (accounts w)"]
  by (auto simp: accounts_keyed_def)

lemma AccountFor_grows:
  assumes "AccountFor k u w = (r, w1)"
  shows "set (accounts w) \<subseteq> set (accounts w1)"
  using AccountFor_result [OF assms] by auto

lemma AccountFor_balance [simp]:
  "AccountFor k u w = (r, w1) \<Longrightarrow> account_balance w1 a = account_balance w a"
  by (simp add: account_balance_def AccountFor_frame)

lemma InsertTransactionEntry_frame:
  assumes "InsertTransactionEntry e w = (r, w1)"
  shows "invoices w1 = invoices w" and "accounts w1 = accounts w"
    and "lnd_calls w1 = lnd_calls w" and "now w1 = now w" and "faults w1 = tl (faults w)"
  using assms
  by (auto simp: InsertTransactionEntry_def Let_def exec_stmt_frame
           split: prod.splits bool.splits if_splits)

lemma InsertTransactionEntry_result:
  assumes "InsertTransactionEntry e w = (r, w1)"
  shows "((r = Inl StoreError \<or> r = Inl InsufficientBalance \<and> balance_guard_rejects w e)
          \<and> transaction_entries w1 = transaction_entries w)
       \<or> (r = Inr (e\<lparr>te_ID := fresh_id (map te_ID (transaction_entries w))\<rparr>)
          \<and> \<not> balance_guard_rejects w e
          \<and> transaction_entries w1 =
              transaction_entries w @ [e\<lparr>te_ID := fresh_id (map te_ID (transaction_entries w))\<rparr>])"
  using assms
  by (auto simp: InsertTransactionEntry_def Let_def exec_stmt_def balance_guard_rejects_def
                 account_balance_def
           split: prod.splits bool.splits if_splits list.splits)

lemma InsertTransactionEntry_no_faults:
  assumes "InsertTransactionEntry e w = (r, w1)" and "no_faults (Suc n) w"
  shows "r \<noteq> Inl StoreError" and "no_faults n w1"
  using assms
  by (auto simp: InsertTransactionEntry_def Let_def no_faults_def exec_stmt_def
           split: prod.splits bool.splits if_splits list.splits)

lemma InsertTransactionEntry_error:
  assumes "InsertTransactionEntry e w = (Inl err, w1)"
  shows "err = StoreError \<or> err = InsufficientBalance"
    and "transaction_entries w1 = transaction_entries w"
  using InsertTransactionEntry_result [OF assms] by auto

lemma InsertTransactionEntry_ok:
  assumes "InsertTransactionEntry e w = (Inr e', w1)"
  shows "e' = e\<lparr>te_ID := fresh_id (map te_ID (transaction_entries w))\<rparr>"
    and "transaction_entries w1 = transaction_entries w @ [e']"
    and "\<not> balance_guard_rejects w e"
  using InsertTransactionEntry_result [OF assms] by auto

lemma UpdateInvoice_frame:
  assumes "UpdateInvoice i w = (r, w1)"
  shows "transaction_entries w1 = transaction_entries w" and "accounts w1 = accounts w"
    and "lnd_calls w1 = lnd_calls w" and "now w1 = now w" and "faults w1 = tl (faults w)"
  using assms
  by (auto simp: UpdateInvoice_def exec_stmt_frame split: prod.splits bool.splits)

lemma UpdateInvoice_result:
  assumes "UpdateInvoice i w = (r, w1)"
  shows "(r = Some StoreError \<and> invoices w1 = invoices w)
       \<or> (r = None \<and> invoices w1 = map (\<lambda>x. if ID x = ID i then i else x) (invoices w))"
  using assms
  by (auto simp: UpdateInvoice_def exec_stmt_frame split: prod.splits bool.splits)

lemma UpdateInvoice_no_faults:
  assumes "UpdateInvoice i w = (r, w1)" and "no_faults (Suc n) w"
  shows "r = None" and "no_faults n w1"
  using assms
  by (auto simp: UpdateInvoice_def no_faults_def exec_stmt_def
           split: prod.splits bool.splits list.splits)

lemma UpdateInvoice_balance [simp]:
  "UpdateInvoice i w = (r, w1) \<Longrightarrow> account_balance w1 a = account_balance w a"
  by (simp add: account_balance_def UpdateInvoice_frame)


lemma InsertInvoice_result:
  assumes "InsertInvoice i w = (r, w1)"
  shows "(r = Inl StoreError \<and> invoices w1 = invoices w)
       \<or> (r = Inr (i\<lparr>ID := fresh_id (map ID (invoices w))\<rparr>)
          \<and> invoices w1 = invoices w @ [i\<lparr>ID := fresh_id (map ID (invoices w))\<rparr>])"
  using assms
  by (auto simp: InsertInvoice_def Let_def exec_stmt_frame split: prod.splits bool.splits)

lemma SelectOpenIncomingInvoice_frame:
  assumes "SelectOpenIncomingInvoice pr w = (r, w1)"
  shows "transaction_entries w1 = transaction_entries w" and "accounts w1 = accounts w"
    and "lnd_calls w1 = lnd_calls w" and "now w1 = now w" and "faults w1 = tl (faults w)"
    and "invoices w1 = invoices w"
  using assms
  by (auto simp: SelectOpenIncomingInvoice_def exec_stmt_frame
           split: prod.splits bool.splits option.splits)

lemma SelectOpenIncomingInvoice_result:
  assumes "SelectOpenIncomingInvoice pr w = (r, w1)"
  shows "r = Inl StoreError
       \<or> r = Inl NotFound
          \<and> find (\<lambda>x. Type x = InvoiceTypeIncoming \<and> PaymentRequest x = pr
                       \<and> State x = InvoiceStateOpen) (invoices w) = None
       \<or> (\<exists>inc. r = Inr inc
             \<and> find (\<lambda>x. Type x = InvoiceTypeIncoming \<and> PaymentRequest x = pr
                          \<and> State x = InvoiceStateOpen) (invoices w) = Some inc)"
  using assms
  by (auto simp: SelectOpenIncomingInvoice_def exec_stmt_frame
           split: prod.splits bool.splits option.splits)

lemma SelectOpenIncomingInvoice_no_faults:
  assumes "SelectOpenIncomingInvoice pr w = (r, w1)" and "no_faults (Suc n) w"
  shows "r \<noteq> Inl StoreError" and "no_faults n w1"
  using assms
  by (auto simp: SelectOpenIncomingInvoice_def no_faults_def exec_stmt_def
           split: prod.splits bool.splits list.splits option.splits)

lemma keyed_same_account:
  assumes "accounts_keyed w" and "a \<in> set (accounts w)" and "b \<in> set (accounts w)"
    and "acc_ID a = acc_ID b"
  shows "a = b"
  using assms by (auto simp: accounts_keyed_def distinct_map dest: inj_onD)

lemma guard_accepts_other_kinds:
  assumes "accounts_keyed w" and "a \<in> set (accounts w)"
    and "acc_Type a \<noteq> AccountTypeCurrent" and "te_DebitAccountID e = acc_ID a"
  shows "\<not> balance_guard_rejects w e"
proof
  assume "balance_guard_rejects w e"
  then obtain b where b: "b \<in> set (accounts w)" "acc_ID b = te_DebitAccountID e"
      "acc_Type b = AccountTypeCurrent"
    by (auto simp: balance_guard_rejects_def list_ex_iff)
  then have "b = a"
    using keyed_same_account [OF assms(1) b(1) assms(2)] assms(4) by simp
  with b(3) assms(3) show False by simp
qed

lemma guard_rejects_current:
  assumes "a \<in> set (accounts w)" and "acc_Type a = AccountTypeCurrent"
    and "te_DebitAccountID e = acc_ID a" and "account_balance w (acc_ID a) < te_Amount e"
  shows "balance_guard_rejects w e"
  using assms by (auto simp: balance_guard_rejects_def list_ex_iff)

lemma account_balance_effect:
  "account_balance w a = sum_list (map (entry_effect a) (transaction_entries w))"
  unfolding account_balance_def entry_effect_def ..

lemma account_balance_append:
  assumes "transaction_entries w1 = transaction_entries w @ added"
  shows "account_balance w1 a = account_balance w a + sum_list (map (entry_effect a) added)"
  using assms by (simp add: account_balance_effect)

lemma AccountFor_all:
  assumes "AccountFor k u w = (r, w1)"
  shows "invoices w1 = invoices w \<and> transaction_entries w1 = transaction_entries w
       \<and> lnd_calls w1 = lnd_calls w \<and> now w1 = now w \<and> faults w1 = tl (faults w)
       \<and> set (accounts w) \<subseteq> set (accounts w1)
       \<and> (accounts_keyed w \<longrightarrow> accounts_keyed w1)
       \<and> (\<forall>a. r = Inr a \<longrightarrow> acc_UserID a = u \<and> acc_Type a = k \<and> a \<in> set (accounts w1))
       \<and> (\<forall>e. r = Inl e \<longrightarrow> e = StoreError \<and> faults w \<noteq> [] \<and> hd (faults w))"
proof -
  have "\<forall>e. r = Inl e \<longrightarrow> e = StoreError \<and> faults w \<noteq> [] \<and> hd (faults w)"
    using assms
    by (auto simp: AccountFor_def Let_def exec_stmt_def
           split: prod.splits bool.splits option.splits list.splits)
  then show ?thesis
  using AccountFor_frame [OF assms] AccountFor_grows [OF assms] AccountFor_keyed [OF assms]
    AccountFor_result [OF assms]
  by auto
qed

lemma InsertTransactionEntry_all:
  assumes "InsertTransactionEntry e w = (r, w1)"
  shows "invoices w1 = invoices w \<and> accounts w1 = accounts w
       \<and> accounts_keyed w1 = accounts_keyed w
       \<and> lnd_calls w1 = lnd_calls w \<and> now w1 = now w \<and> faults w1 = tl (faults w)
       \<and> (\<forall>err. r = Inl err \<longrightarrow> transaction_entries w1 = transaction_entries w
              \<and> (err = StoreError \<and> faults w \<noteq> [] \<and> hd (faults w)
                  \<or> err = InsufficientBalance \<and> balance_guard_rejects w e))
       \<and> (\<forall>e'. r = Inr e' \<longrightarrow> e' = e\<lparr>te_ID := fresh_id (map te_ID (transaction_entries w))\<rparr>
              \<and> transaction_entries w1 = transaction_entries w @ [e']
              \<and> \<not> balance_guard_rejects w e)"
proof -
  have "\<forall>err. r = Inl err \<longrightarrow> 
              (err = StoreError \<and> faults w \<noteq> [] \<and> hd (faults w)
                  \<or> err = InsufficientBalance \<and> balance_guard_rejects w e)"
  using assms
  by (auto simp: InsertTransactionEntry_def Let_def exec_stmt_def balance_guard_rejects_def
                 account_balance_def
           split: prod.splits bool.splits if_splits list.splits)
  then show ?thesis
  using InsertTransactionEntry_frame [OF assms] InsertTransactionEntry_result [OF assms]
  by (auto simp: accounts_keyed_def)
qed

lemma UpdateInvoice_all:
  assumes "UpdateInvoice i w = (r, w1)"
  shows "transaction_entries w1 = transaction_entries w \<and> accounts w1 = accounts w
       \<and> accounts_keyed w1 = accounts_keyed w
       \<and> lnd_calls w1 = lnd_calls w \<and> now w1 = now w \<and> faults w1 = tl (faults w)
       \<and> (\<forall>err. r = Some err \<longrightarrow> err = StoreError \<and> invoices w1 = invoices w
              \<and> faults w \<noteq> [] \<and> hd (faults w))
       \<and> (r = None \<longrightarrow>
             invoices w1 = map (\<lambda>x. if ID x = ID i then i else x) (invoices w))"
proof -
  have "\<forall>err. r = Some err \<longrightarrow> faults w \<noteq> [] \<and> hd (faults w)"
    using assms
    by (auto simp: UpdateInvoice_def exec_stmt_def split: prod.splits bool.splits list.splits)
  then show ?thesis
  using UpdateInvoice_frame [OF assms] UpdateInvoice_result [OF assms]
  by (auto simp: accounts_keyed_def)
qed

lemma SelectOpenIncomingInvoice_all:
  assumes "SelectOpenIncomingInvoice pr w = (r, w1)"
  shows "transaction_entries w1 = transaction_entries w \<and> accounts w1 = accounts w
       \<and> accounts_keyed w1 = accounts_keyed w
       \<and> lnd_calls w1 = lnd_calls w \<and> now w1 = now w \<and> faults w1 = tl (faults w)
       \<and> invoices w1 = invoices w
       \<and> (\<forall>err. r = Inl err \<longrightarrow>
             err = StoreError \<and> faults w \<noteq> [] \<and> hd (faults w)
             \<or> err = NotFound
               \<and> find (\<lambda>x. Type x = InvoiceTypeIncoming \<and> PaymentRequest x = pr
                            \<and> State x = InvoiceStateOpen) (invoices w) = None)
       \<and> (\<forall>inc. r = Inr inc \<longrightarrow>
             find (\<lambda>x. Type x = InvoiceTypeIncoming \<and> PaymentRequest x = pr
                        \<and> State x = InvoiceStateOpen) (invoices w) = Some inc)"
proof -
  have "\<forall>err. r = Inl err \<longrightarrow>
             err = StoreError \<and> faults w \<noteq> [] \<and> hd (faults w)
             \<or> err = NotFound
               \<and> find (\<lambda>x. Type x = InvoiceTypeIncoming \<and> PaymentRequest x = pr
                            \<and> State x = InvoiceStateOpen) (invoices w) = None"
    using assms
    by (auto simp: SelectOpenIncomingInvoice_def exec_stmt_def
             split: prod.splits bool.splits list.splits option.splits)
  then show ?thesis
    using SelectOpenIncomingInvoice_frame [OF assms] SelectOpenIncomingInvoice_result [OF assms]
    by (auto simp: accounts_keyed_def)
qed


lemma no_faults_step:
  assumes "no_faults n w" and "0 < n" and "faults w1 = tl (faults w)"
  shows "no_faults (n - 1) w1" and "faults w = [] \<or> \<not> hd (faults w)"
  using assms by (cases "faults w"; cases n; auto simp: no_faults_def)+

lemma SendInternalPayment_outcome:
  assumes run: "SendInternalPayment svc invoice w = ((resp, err), w')"
  shows "lnd_calls w' = lnd_calls w \<and> now w' = now w
       \<and> set (accounts w) \<subseteq> set (accounts w')
       \<and> (accounts_keyed w \<longrightarrow> accounts_keyed w')
       \<and> (transaction_entries w' = transaction_entries w
          \<or> (\<exists>e inc. transaction_entries w' = transaction_entries w @ [e]
                \<and> open_incoming (PaymentRequest invoice) w = Some inc
                \<and> te_Amount e = Amount invoice \<and> te_ParentID e = 0
                \<and> te_InvoiceID e = ID inc \<and> te_UserID e = UserID inc))
       \<and> (err = None \<longrightarrow>
            (\<exists>inc. open_incoming (PaymentRequest invoice) w = Some inc
              \<and> resp = \<lparr>PaymentPreimage = fst (DecodeString (Preimage inc)),
                        PaymentPreimageStr = Preimage inc, PaymentError = [],
                        PaymentHash = fst (DecodeString (RHash invoice)),
                        PaymentHashStr = RHash invoice,
                        PaymentRoute = Some \<lparr>TotalAmt = Amount invoice, TotalFees = 0\<rparr>,
                        resp_TransactionEntry = None, resp_Invoice = Some invoice\<rparr>
              \<and> invoices w' =
                  map (\<lambda>x. if ID x = ID inc then settled_internally inc (now w) else x)
                      (invoices w)
              \<and> transaction_entries w' \<noteq> transaction_entries w))
       \<and> (err \<noteq> None \<longrightarrow> invoices w' = invoices w)
       \<and> (\<forall>e. err = Some e \<longrightarrow>
             e = NotFound \<and> open_incoming (PaymentRequest invoice) w = None
               \<and> transaction_entries w' = transaction_entries w
             \<or> e = StoreError \<or> e = InsufficientBalance)
       \<and> (no_faults 5 w \<and> accounts_keyed w \<longrightarrow> err = None \<or> err = Some NotFound)
       \<and> (faults w = [] \<longrightarrow> faults w' = [])"
proof -
  note d = SendInternalPayment_def Let_def SendPaymentResponse_zero_def
  let ?pr = "PaymentRequest invoice"
  obtain r0 w1 where sel: "SelectOpenIncomingInvoice ?pr w = (r0, w1)" by fastforce
  note s0 = SelectOpenIncomingInvoice_all [OF sel, folded open_incoming_def]
  show ?thesis
  proof (cases r0)
    case (Inl e0)
    with run sel have "err = Some e0" "w' = w1" by (simp_all add: d)
    moreover have "no_faults 5 w \<longrightarrow> e0 = NotFound"
      using Inl s0 no_faults_step(2) [of 5 w w1] by auto
    ultimately show ?thesis using Inl s0 by auto
  next
    case inc: (Inr inc)
    obtain r1 w2 where a1: "AccountFor AccountTypeCurrent (UserID inc) w1 = (r1, w2)"
      by fastforce
    note s1 = AccountFor_all [OF a1]
    have nf1: "no_faults 5 w \<longrightarrow> no_faults 4 w1"
      using s0 no_faults_step(1) [of 5 w w1] by auto
    show ?thesis
    proof (cases r1)
      case (Inl e1)
      with run sel inc a1 have "err = Some e1" "w' = w2" by (simp_all add: d)
      moreover have "\<not> no_faults 5 w"
        using Inl s1 nf1 no_faults_step(2) [of 4 w1 w2] by auto
      ultimately show ?thesis using Inl s0 s1 by auto
    next
      case ca: (Inr ca)
      obtain r2 w3 where a2: "AccountFor AccountTypeIncoming (UserID inc) w2 = (r2, w3)"
        by fastforce
      note s2 = AccountFor_all [OF a2]
      have nf2: "no_faults 5 w \<longrightarrow> no_faults 3 w2"
        using s1 nf1 no_faults_step(1) [of 4 w1 w2] by auto
      show ?thesis
      proof (cases r2)
        case (Inl e2)
        with run sel inc a1 ca a2 have "err = Some e2" "w' = w3" by (simp_all add: d)
        moreover have "\<not> no_faults 5 w"
          using Inl s2 nf2 no_faults_step(2) [of 3 w2 w3] by auto
        ultimately show ?thesis using Inl s0 s1 s2 by auto
      next
        case da: (Inr da)
        let ?e = "\<lparr>te_ID = 0, te_UserID = UserID inc, te_InvoiceID = ID inc, te_ParentID = 0,
                   te_CreditAccountID = acc_ID ca, te_DebitAccountID = acc_ID da,
                   te_Amount = Amount invoice\<rparr>"
        obtain r3 w4 where ins: "InsertTransactionEntry ?e w3 = (r3, w4)" by fastforce
        note s3 = InsertTransactionEntry_all [OF ins]
        have base: "lnd_calls w4 = lnd_calls w" "now w4 = now w" "invoices w4 = invoices w"
            "set (accounts w) \<subseteq> set (accounts w4)" "accounts_keyed w \<longrightarrow> accounts_keyed w4"
            "faults w = [] \<longrightarrow> faults w4 = []"
          using s0 s1 s2 s3 by auto
        have nf3: "no_faults 5 w \<longrightarrow> no_faults 2 w3"
          using s2 nf2 no_faults_step(1) [of 3 w2 w3] by auto
        have nf4: "no_faults 5 w \<longrightarrow> no_faults 1 w4"
          using s3 nf3 no_faults_step(1) [of 2 w3 w4] by auto
        have guard: "accounts_keyed w \<longrightarrow> \<not> balance_guard_rejects w3 ?e"
        proof
          assume "accounts_keyed w"
          then have "accounts_keyed w3" using s0 s1 s2 by auto
          moreover have "da \<in> set (accounts w3)" "acc_Type da = AccountTypeIncoming"
            using da s2 by auto
          ultimately show "\<not> balance_guard_rejects w3 ?e"
            using guard_accepts_other_kinds [of w3 da ?e] by simp
        qed
        show ?thesis
        proof (cases r3)
          case (Inl e3)
          with run sel inc a1 ca a2 da ins have "err = Some e3" "w' = w4"
            by (simp_all add: d)
          moreover have "transaction_entries w4 = transaction_entries w"
            using Inl s0 s1 s2 s3 by auto
          moreover have "e3 = StoreError \<or> e3 = InsufficientBalance"
            using Inl s3 by auto
          moreover have "\<not> (no_faults 5 w \<and> accounts_keyed w)"
            using Inl s3 nf3 guard no_faults_step(2) [of 2 w3 w4] by auto
          ultimately show ?thesis using base by auto
        next
          case e': (Inr e')
          let ?inc' = "inc\<lparr>Internal := True, State := InvoiceStateSettled,
                                SettledAt := Some (now w4)\<rparr>"
          obtain r4 w5 where upd: "UpdateInvoice ?inc' w4 = (r4, w5)" by fastforce
          note s4 = UpdateInvoice_all [OF upd]
          from run sel inc a1 ca a2 da ins e' upd have res: "err = r4" "w' = w5"
            "resp = \<lparr>PaymentPreimage = fst (DecodeString (Preimage inc)),
                        PaymentPreimageStr = Preimage inc, PaymentError = [],
                        PaymentHash = fst (DecodeString (RHash invoice)),
                        PaymentHashStr = RHash invoice,
                        PaymentRoute = Some \<lparr>TotalAmt = Amount invoice, TotalFees = 0\<rparr>,
                        resp_TransactionEntry = None, resp_Invoice = Some invoice\<rparr>"
            by (simp_all add: d split: option.splits)
          have ent: "transaction_entries w5 = transaction_entries w @ [e']"
              "te_Amount e' = Amount invoice" "te_ParentID e' = 0"
              "te_InvoiceID e' = ID inc" "te_UserID e' = UserID inc"
            using e' s0 s1 s2 s3 s4 by auto
          have found: "open_incoming ?pr w = Some inc"
            using s0 inc by simp
          have base5: "lnd_calls w5 = lnd_calls w" "now w5 = now w"
            "set (accounts w) \<subseteq> set (accounts w5)" "accounts_keyed w \<longrightarrow> accounts_keyed w5"
            "faults w = [] \<longrightarrow> faults w5 = []"
            using base s4 by auto
          have inv: "r4 = None \<longrightarrow> invoices w5 =
                  map (\<lambda>x. if ID x = ID inc then settled_internally inc (now w) else x)
                      (invoices w)"
            using s4 base by (auto simp: settled_internally_def)
          have inv': "r4 \<noteq> None \<longrightarrow> invoices w5 = invoices w \<and> r4 = Some StoreError"
            using s4 base by auto
          have ok: "no_faults 5 w \<longrightarrow> r4 = None"
            using s4 nf4 no_faults_step(2) [of 1 w4 w5] by auto
          show ?thesis
            unfolding res using ent found base5 inv inv' ok by auto
        qed
      qed
    qed
  qed
qed


lemma createLnRpcSendRequest_invoice:
  assumes "createLnRpcSendRequest lib invoice = (r, invoice1)"
  shows "invoice1 = invoice\<lparr>DestinationCustomRecords := DestinationCustomRecords invoice1\<rparr>"
  using assms
  by (auto simp: createLnRpcSendRequest_def Let_def split: if_splits prod.splits option.splits)

lemma SendPaymentSync_outcome:
  assumes run: "SendPaymentSync svc lib invoice w = ((resp, err), invoice1, w1)"
  shows "accounts w1 = accounts w \<and> invoices w1 = invoices w
       \<and> transaction_entries w1 = transaction_entries w \<and> faults w1 = faults w
       \<and> now w1 = now w
       \<and> invoice1 = invoice\<lparr>DestinationCustomRecords := DestinationCustomRecords invoice1\<rparr>
       \<and> lnd_calls w1 = lnd_calls w @
            (case createLnRpcSendRequest lib invoice of
               (Inl e, i) \<Rightarrow> [] | (Inr req, i) \<Rightarrow> [CallSendPaymentSync req])
       \<and> (err = None \<longrightarrow> (\<exists>route. PaymentRoute resp = Some route) \<and> resp_Invoice resp = None)"
proof -
  obtain r0 i0 where c: "createLnRpcSendRequest lib invoice = (r0, i0)" by fastforce
  note ci = createLnRpcSendRequest_invoice [OF c]
  show ?thesis
  proof (cases r0)
    case (Inl e)
    with run c ci show ?thesis
      by (auto simp: SendPaymentSync_def Let_def SendPaymentResponse_zero_def)
  next
    case (Inr req)
    with run c ci show ?thesis
      by (auto simp: SendPaymentSync_def Let_def SendPaymentResponse_zero_def
               split: sum.splits if_splits option.splits)
  qed
qed


lemma route_payment_outcome:
  assumes run: "route_payment svc lib invoice w = ((resp, err), invoice1, w1)"
  shows "now w1 = now w \<and> set (accounts w) \<subseteq> set (accounts w1)
       \<and> (accounts_keyed w \<longrightarrow> accounts_keyed w1)
       \<and> invoice1 = invoice\<lparr>DestinationCustomRecords := DestinationCustomRecords invoice1\<rparr>
       \<and> lnd_calls w1 = lnd_calls w @ gateway_calls svc lib invoice
       \<and> (transaction_entries w1 = transaction_entries w
          \<or> IdentityPubkey svc = DestinationPubkeyHex invoice
            \<and> (\<exists>e inc. transaction_entries w1 = transaction_entries w @ [e]
                  \<and> open_incoming (PaymentRequest invoice) w = Some inc
                  \<and> te_Amount e = Amount invoice \<and> te_ParentID e = 0
                  \<and> te_InvoiceID e = ID inc \<and> te_UserID e = UserID inc))
       \<and> (err = None \<longrightarrow>
            (\<exists>route. PaymentRoute resp = Some route
               \<and> (IdentityPubkey svc = DestinationPubkeyHex invoice \<longrightarrow> TotalFees route = 0)))
       \<and> (\<forall>e. err = Some e \<and> is_panic e \<longrightarrow>
             transaction_entries w1 = transaction_entries w
             \<and> IdentityPubkey svc \<noteq> DestinationPubkeyHex invoice)
       \<and> (faults w = [] \<longrightarrow> faults w1 = [])
       \<and> (faults w = [] \<and> accounts_keyed w \<and> err \<noteq> None \<longrightarrow>
             transaction_entries w1 = transaction_entries w)
       \<and> (err \<noteq> None \<longrightarrow> invoices w1 = invoices w)
       \<and> (err = None \<longrightarrow>
             (if IdentityPubkey svc = DestinationPubkeyHex invoice
              then \<exists>inc. open_incoming (PaymentRequest invoice) w = Some inc
                     \<and> invoices w1 = map (\<lambda>x. if ID x = ID inc
                                              then settled_internally inc (now w) else x)
                                         (invoices w)
              else invoices w1 = invoices w))
       \<and> (faults w = [] \<and> accounts_keyed w
             \<and> IdentityPubkey svc = DestinationPubkeyHex invoice
            \<longrightarrow> err = None
               \<or> err = Some NotFound \<and> open_incoming (PaymentRequest invoice) w = None)
       \<and> (err = None \<and> IdentityPubkey svc = DestinationPubkeyHex invoice
            \<longrightarrow> transaction_entries w1 \<noteq> transaction_entries w)"
proof (cases "IdentityPubkey svc = DestinationPubkeyHex invoice")
  case True
  with run have i: "invoice1 = invoice" and r: "SendInternalPayment svc invoice w = ((resp, err), w1)"
    by (auto simp: route_payment_def split: prod.splits)
  have "faults w = [] \<longrightarrow> no_faults 5 w"
    by (simp add: no_faults_def)
  with SendInternalPayment_outcome [OF r] True i show ?thesis
    by (auto simp: gateway_calls_def is_panic_def)
next
  case False
  with run have r: "SendPaymentSync svc lib invoice w = ((resp, err), invoice1, w1)"
    by (simp add: route_payment_def)
  from SendPaymentSync_outcome [OF r] False show ?thesis
    by (auto simp: gateway_calls_def accounts_keyed_def)
qed

lemma HandleFailedPayment_outcome:
  assumes run: "HandleFailedPayment invoice p fe w = (r, invoice', w')"
  shows "now w' = now w \<and> accounts w' = accounts w \<and> lnd_calls w' = lnd_calls w
       \<and> accounts_keyed w' = accounts_keyed w
       \<and> ((\<exists>e. r = Some e) \<and> transaction_entries w' = transaction_entries w
            \<and> invoice' = invoice \<and> invoices w' = invoices w
          \<or> (\<exists>rev. transaction_entries w' = transaction_entries w @ [rev]
                \<and> te_CreditAccountID rev = te_DebitAccountID p
                \<and> te_DebitAccountID rev = te_CreditAccountID p
                \<and> te_Amount rev = Amount invoice \<and> te_UserID rev = UserID invoice
                \<and> te_InvoiceID rev = ID invoice \<and> te_ParentID rev = 0)
            \<and> invoice' =
                (case fe of None \<Rightarrow> invoice\<lparr>State := InvoiceStateError\<rparr>
                 | Some e \<Rightarrow> invoice\<lparr>State := InvoiceStateError, ErrorMessage := Error e\<rparr>)
            \<and> (r = None
                 \<and> invoices w' = map (\<lambda>x. if ID x = ID invoice then invoice' else x) (invoices w)
               \<or> r = Some StoreError \<and> invoices w' = invoices w))
       \<and> (no_faults 2 w \<and> accounts_keyed w
            \<and> (\<exists>c \<in> set (accounts w). acc_ID c = te_CreditAccountID p
                  \<and> acc_Type c \<noteq> AccountTypeCurrent)
            \<longrightarrow> r = None \<and> transaction_entries w' \<noteq> transaction_entries w)
       \<and> (faults w = [] \<longrightarrow> faults w' = [])"
proof -
  let ?e = "\<lparr>te_ID = 0, te_UserID = UserID invoice, te_InvoiceID = ID invoice,
             te_ParentID = 0, te_CreditAccountID = te_DebitAccountID p,
             te_DebitAccountID = te_CreditAccountID p, te_Amount = Amount invoice\<rparr>"
  obtain r1 w1 where ins: "InsertTransactionEntry ?e w = (r1, w1)" by fastforce
  note s1 = InsertTransactionEntry_all [OF ins]
  have guard: "accounts_keyed w
            \<and> (\<exists>c \<in> set (accounts w). acc_ID c = te_CreditAccountID p
                  \<and> acc_Type c \<noteq> AccountTypeCurrent) \<longrightarrow> \<not> balance_guard_rejects w ?e"
  proof
    assume a: "accounts_keyed w
            \<and> (\<exists>c \<in> set (accounts w). acc_ID c = te_CreditAccountID p
                  \<and> acc_Type c \<noteq> AccountTypeCurrent)"
    then obtain c where c: "c \<in> set (accounts w)" "acc_ID c = te_CreditAccountID p"
        "acc_Type c \<noteq> AccountTypeCurrent"
      by blast
    show "\<not> balance_guard_rejects w ?e"
      by (rule guard_accepts_other_kinds [of w c]) (use a c in simp_all)
  qed
  show ?thesis
  proof (cases r1)
    case (Inl e1)
    with run ins have "r = Some e1" "invoice' = invoice" "w' = w1"
      by (simp_all add: HandleFailedPayment_def)
    moreover have "no_faults 2 w \<longrightarrow> balance_guard_rejects w ?e"
      using Inl s1 no_faults_step(2) [of 2 w w1] by auto
    ultimately show ?thesis using Inl s1 guard by auto
  next
    case (Inr rev)
    let ?i = "(case fe of None \<Rightarrow> invoice\<lparr>State := InvoiceStateError\<rparr>
                 | Some e \<Rightarrow> invoice\<lparr>State := InvoiceStateError, ErrorMessage := Error e\<rparr>)"
    obtain r2 w2 where upd: "UpdateInvoice ?i w1 = (r2, w2)" by fastforce
    note s2 = UpdateInvoice_all [OF upd]
    have idi: "ID ?i = ID invoice" by (simp split: option.splits)
    from run ins Inr upd have res: "r = r2" "invoice' = ?i" "w' = w2"
      by (auto simp: HandleFailedPayment_def Let_def split: option.splits)
    have nf: "no_faults 2 w \<longrightarrow> r2 = None"
      using s1 s2 no_faults_step(1) [of 2 w w1] no_faults_step(2) [of 1 w1 w2] by auto
    have rev: "transaction_entries w2 = transaction_entries w @ [rev]"
      "te_CreditAccountID rev = te_DebitAccountID p"
      "te_DebitAccountID rev = te_CreditAccountID p"
      "te_Amount rev = Amount invoice" "te_UserID rev = UserID invoice"
      "te_InvoiceID rev = ID invoice" "te_ParentID rev = 0"
      using Inr s1 s2 by auto
    have inv: "r2 = None
                 \<and> invoices w2 = map (\<lambda>x. if ID x = ID invoice then ?i else x) (invoices w)
               \<or> r2 = Some StoreError \<and> invoices w2 = invoices w"
      using s1 s2 idi by (cases r2) auto
    have fr: "now w2 = now w" "accounts w2 = accounts w" "lnd_calls w2 = lnd_calls w"
      "faults w = [] \<longrightarrow> faults w2 = []" "accounts_keyed w2 = accounts_keyed w"
      using s1 s2 by auto
    show ?thesis
      unfolding res using rev inv fr nf by auto
  qed
qed


lemma CurrentUserBalance_all:
  assumes run: "CurrentUserBalance uid w = (r, w')"
  shows "invoices w' = invoices w \<and> transaction_entries w' = transaction_entries w
       \<and> lnd_calls w' = lnd_calls w \<and> now w' = now w
       \<and> set (accounts w) \<subseteq> set (accounts w')
       \<and> (accounts_keyed w \<longrightarrow> accounts_keyed w')
       \<and> (\<forall>e. r = Inl e \<longrightarrow> e = StoreError \<and> \<not> no_faults 2 w)
       \<and> (faults w = [] \<longrightarrow> faults w' = [])"
proof -
  obtain r1 w1 where a: "AccountFor AccountTypeCurrent uid w = (r1, w1)" by fastforce
  note s1 = AccountFor_all [OF a]
  show ?thesis
  proof (cases r1)
    case (Inl e)
    with run a have "r = Inl e" "w' = w1" by (simp_all add: CurrentUserBalance_def)
    moreover have "\<not> no_faults 2 w"
      using Inl s1 no_faults_step(2) [of 2 w w1] by auto
    ultimately show ?thesis using Inl s1 by auto
  next
    case (Inr acc)
    obtain f w2 where x: "exec_stmt w1 = (f, w2)" by fastforce
    note s2 = exec_stmt_frame [OF x]
    from run a Inr x have res: "w' = w2" "r = (if f then Inl StoreError else Inr (account_balance w2 (acc_ID acc)))"
      by (simp_all add: CurrentUserBalance_def split: bool.splits)
    have "no_faults 2 w \<longrightarrow> \<not> f"
      using s1 x no_faults_step(1) [of 2 w w1] exec_stmt_no_faults(1) [of w1 f w2 0] by auto
    then show ?thesis
      unfolding res using s1 s2 by (auto simp: accounts_keyed_def)
  qed
qed

lemma HandleSuccessfulPayment_outcome:
  assumes run: "HandleSuccessfulPayment invoice p w = (r, invoice', w')"
  shows "invoice' = invoice\<lparr>State := InvoiceStateSettled, SettledAt := Some (now w)\<rparr>
       \<and> now w' = now w \<and> lnd_calls w' = lnd_calls w
       \<and> set (accounts w) \<subseteq> set (accounts w')
       \<and> (accounts_keyed w \<longrightarrow> accounts_keyed w')
       \<and> (invoices w' = invoices w
          \<or> invoices w' = map (\<lambda>x. if ID x = ID invoice then invoice' else x) (invoices w))
       \<and> ((\<exists>e. r = Some e \<and> (e = StoreError \<or> e = InsufficientBalance))
            \<and> transaction_entries w' = transaction_entries w
          \<or> (\<exists>f. transaction_entries w' = transaction_entries w @ [f]
                \<and> fee_of p invoice' w' f)
            \<and> (r = None \<or> r = Some StoreError))
       \<and> (no_faults 5 w \<longrightarrow>
            invoices w' = map (\<lambda>x. if ID x = ID invoice then invoice' else x) (invoices w)
            \<and> (r = None \<or> r = Some InsufficientBalance))
       \<and> (faults w = [] \<longrightarrow> faults w' = [])"
proof -
  let ?i = "invoice\<lparr>State := InvoiceStateSettled, SettledAt := Some (now w)\<rparr>"
  note d = HandleSuccessfulPayment_def Let_def
  obtain r0 w1 where upd: "UpdateInvoice ?i w = (r0, w1)" by fastforce
  note s0 = UpdateInvoice_all [OF upd]
  have inv1: "invoices w1 = invoices w
          \<or> invoices w1 = map (\<lambda>x. if ID x = ID invoice then ?i else x) (invoices w)"
    using s0 by (cases r0) auto
  have nf1: "no_faults 5 w \<longrightarrow> no_faults 4 w1
      \<and> invoices w1 = map (\<lambda>x. if ID x = ID invoice then ?i else x) (invoices w)"
    using s0 no_faults_step [of 5 w w1] by (cases r0) auto
  obtain r1 w2 where a: "AccountFor AccountTypeFees (UserID invoice) w1 = (r1, w2)"
    by fastforce
  note s1 = AccountFor_all [OF a]
  have nf2: "no_faults 5 w \<longrightarrow> no_faults 3 w2"
    using nf1 s1 no_faults_step(1) [of 4 w1 w2] by auto
  show ?thesis
  proof (cases r1)
    case (Inl e1)
    with run upd a have res: "r = Some e1" "invoice' = ?i" "w' = w2"
      by (simp_all add: d)
    have "\<not> no_faults 5 w"
      using Inl s1 nf1 no_faults_step(2) [of 4 w1 w2] by auto
    then show ?thesis
      unfolding res using Inl s0 s1 inv1 by auto
  next
    case (Inr feeAccount)
    let ?e = "\<lparr>te_ID = 0, te_UserID = UserID invoice, te_InvoiceID = ID invoice,
              te_ParentID = te_ID p, te_CreditAccountID = acc_ID feeAccount,
              te_DebitAccountID = te_DebitAccountID p, te_Amount = Fee invoice\<rparr>"
    obtain r2 w3 where ins: "InsertTransactionEntry ?e w2 = (r2, w3)" by fastforce
    note s2 = InsertTransactionEntry_all [OF ins]
    have nf3: "no_faults 5 w \<longrightarrow> no_faults 2 w3"
      using nf2 s2 no_faults_step(1) [of 3 w2 w3] by auto
    have base: "now w3 = now w" "lnd_calls w3 = lnd_calls w" "invoices w3 = invoices w1"
        "set (accounts w) \<subseteq> set (accounts w3)" "accounts_keyed w \<longrightarrow> accounts_keyed w3"
        "faults w = [] \<longrightarrow> faults w3 = []"
      using s0 s1 s2 by auto
    show ?thesis
    proof (cases r2)
      case (Inl e2)
      with run upd a Inr ins have res: "r = Some e2" "invoice' = ?i" "w' = w3"
        by (simp_all add: d)
      have e2: "e2 = StoreError \<or> e2 = InsufficientBalance"
          "transaction_entries w3 = transaction_entries w"
        using Inl s0 s1 s2 by auto
      have "no_faults 5 w \<longrightarrow> e2 = InsufficientBalance"
        using Inl s2 nf2 no_faults_step(2) [of 3 w2 w3] by auto
      then show ?thesis
        unfolding res using e2 base inv1 nf1 by auto
    next
      case f: (Inr f)
      obtain r3 w4 where bal: "CurrentUserBalance (te_UserID f) w3 = (r3, w4)" by fastforce
      note s3 = CurrentUserBalance_all [OF bal]
      from run upd a Inr ins f bal have res: "invoice' = ?i" "w' = w4"
          "r = (case r3 of Inl e \<Rightarrow> Some e | Inr b \<Rightarrow> None)"
        by (simp_all add: d split: sum.splits)
      have r: "r = None \<or> r = Some StoreError" "no_faults 5 w \<longrightarrow> r = None"
        unfolding res using s3 nf3 by (cases r3; auto)+
      have fa: "feeAccount \<in> set (accounts w4)" "acc_UserID feeAccount = UserID invoice"
          "acc_Type feeAccount = AccountTypeFees"
        using Inr s1 s2 s3 by auto
      have fee: "transaction_entries w4 = transaction_entries w @ [f]" "fee_of p ?i w4 f"
        using f s0 s1 s2 s3 fa by (auto simp: fee_of_def)
      have base4: "now w4 = now w" "lnd_calls w4 = lnd_calls w" "invoices w4 = invoices w1"
        "set (accounts w) \<subseteq> set (accounts w4)" "accounts_keyed w \<longrightarrow> accounts_keyed w4"
        "faults w = [] \<longrightarrow> faults w4 = []"
        using base s3 by auto
      show ?thesis
        unfolding res(1,2) using r fee base4 inv1 nf1 by auto
    qed
  qed
qed


lemma PayInvoice_outcome:
  assumes run: "PayInvoice svc lib invoice w = ((resp, err), invoice', w')"
  shows "pay_early invoice w resp err invoice' w'
       \<or> (\<exists>p mid invoice1. pay_routed svc lib invoice w p mid invoice1 w'
            \<and> (pay_failed svc invoice w p mid invoice1 resp err invoice' w'
               \<or> pay_settled svc invoice w p mid invoice1 resp err invoice' w'))"
proof -
  note d = PayInvoice_def Let_def
  obtain r1 w1 where a1: "AccountFor AccountTypeCurrent (UserID invoice) w = (r1, w1)"
    by fastforce
  note s1 = AccountFor_all [OF a1]
  show ?thesis
  proof (cases r1)
    case (Inl e1)
    with run a1 have "resp = None" "err = Some e1" "invoice' = invoice" "w' = w1"
      by (simp_all add: d)
    with Inl s1 have "pay_early invoice w resp err invoice' w'"
      by (auto simp: pay_early_def)
    then show ?thesis ..
  next
    case da: (Inr debitAccount)
    obtain r2 w2 where a2: "AccountFor AccountTypeOutgoing (UserID invoice) w1 = (r2, w2)"
      by fastforce
    note s2 = AccountFor_all [OF a2]
    show ?thesis
    proof (cases r2)
      case (Inl e2)
      with run a1 da a2 have "resp = None" "err = Some e2" "invoice' = invoice" "w' = w2"
        by (simp_all add: d)
      with Inl s1 s2 have "pay_early invoice w resp err invoice' w'"
        by (auto simp: pay_early_def)
      then show ?thesis ..
    next
      case ca: (Inr creditAccount)
      let ?e = "\<lparr>te_ID = 0, te_UserID = UserID invoice, te_InvoiceID = ID invoice,
                 te_ParentID = 0, te_CreditAccountID = acc_ID creditAccount,
                 te_DebitAccountID = acc_ID debitAccount, te_Amount = Amount invoice\<rparr>"
      obtain r3 w3 where ins: "InsertTransactionEntry ?e w2 = (r3, w3)" by fastforce
      note s3 = InsertTransactionEntry_all [OF ins]
      show ?thesis
      proof (cases r3)
        case (Inl e3)
        with run a1 da a2 ca ins have "resp = None" "err = Some e3" "invoice' = invoice"
            "w' = w3"
          by (simp_all add: d)
        with Inl s1 s2 s3 have "pay_early invoice w resp err invoice' w'"
          by (auto simp: pay_early_def)
        then show ?thesis ..
      next
        case p: (Inr p)
        have p_facts: "transaction_entries w3 = transaction_entries w @ [p]"
            "te_ID p = fresh_id (map te_ID (transaction_entries w))"
            "te_UserID p = UserID invoice" "te_InvoiceID p = ID invoice"
            "te_Amount p = Amount invoice" "te_ParentID p = 0"
            "te_DebitAccountID p = acc_ID debitAccount"
            "te_CreditAccountID p = acc_ID creditAccount"
          using p s1 s2 s3 by auto
        have acc3: "debitAccount \<in> set (accounts w3)" "creditAccount \<in> set (accounts w3)"
            "acc_UserID debitAccount = UserID invoice" "acc_Type debitAccount = AccountTypeCurrent"
            "acc_UserID creditAccount = UserID invoice"
            "acc_Type creditAccount = AccountTypeOutgoing"
          using da ca s1 s2 s3 by auto
        have fr3: "lnd_calls w3 = lnd_calls w" "now w3 = now w"
            "faults w = [] \<longrightarrow> faults w3 = []" "accounts_keyed w \<longrightarrow> accounts_keyed w3"
            "invoices w3 = invoices w"
          using s1 s2 s3 by auto
        have oi3: "open_incoming (PaymentRequest invoice) w3
                     = open_incoming (PaymentRequest invoice) w"
          using fr3 by (simp add: open_incoming_def)
        obtain pr re invoice1 w4 where
          rt: "route_payment svc lib invoice w3 = ((pr, re), invoice1, w4)"
          by (metis prod.exhaust)
        note s4 = route_payment_outcome [OF rt]
        obtain mid where mid: "transaction_entries w4 = transaction_entries w @ p # mid"
            "mid = []
              \<or> IdentityPubkey svc = DestinationPubkeyHex invoice
                \<and> (\<exists>e inc. mid = [e] \<and> open_incoming (PaymentRequest invoice) w = Some inc
                  \<and> te_Amount e = Amount invoice \<and> te_ParentID e = 0
                  \<and> te_InvoiceID e = ID inc \<and> te_UserID e = UserID inc)"
            "transaction_entries w4 = transaction_entries w3 \<longrightarrow> mid = []"
        proof -
          have oi: "open_incoming (PaymentRequest invoice) w3
                     = open_incoming (PaymentRequest invoice) w"
            using s1 s2 s3 by (simp add: open_incoming_def)
          from s4 have "transaction_entries w4 = transaction_entries w3
             \<or> IdentityPubkey svc = DestinationPubkeyHex invoice
            \<and> (\<exists>e inc. transaction_entries w4 = transaction_entries w3 @ [e]
                  \<and> open_incoming (PaymentRequest invoice) w3 = Some inc
                  \<and> te_Amount e = Amount invoice \<and> te_ParentID e = 0
                  \<and> te_InvoiceID e = ID inc \<and> te_UserID e = UserID inc)"
            by blast
          then show thesis
          proof
            assume "transaction_entries w4 = transaction_entries w3"
            then show thesis using that [of "[]"] p_facts(1) by simp
          next
            assume a: "IdentityPubkey svc = DestinationPubkeyHex invoice
            \<and> (\<exists>e inc. transaction_entries w4 = transaction_entries w3 @ [e]
                  \<and> open_incoming (PaymentRequest invoice) w3 = Some inc
                  \<and> te_Amount e = Amount invoice \<and> te_ParentID e = 0
                  \<and> te_InvoiceID e = ID inc \<and> te_UserID e = UserID inc)"
            then obtain e inc where e: "transaction_entries w4 = transaction_entries w3 @ [e]"
                "open_incoming (PaymentRequest invoice) w = Some inc"
                "te_Amount e = Amount invoice" "te_ParentID e = 0"
                "te_InvoiceID e = ID inc" "te_UserID e = UserID inc"
              using oi by auto
            show thesis
              using that [of "[e]"] e a p_facts(1) by simp
          qed
        qed
        have i1: "invoice1 = invoice\<lparr>DestinationCustomRecords := DestinationCustomRecords invoice1\<rparr>"
          using s4 by blast
        have i1': "UserID invoice1 = UserID invoice" "ID invoice1 = ID invoice"
          "Amount invoice1 = Amount invoice"
          by (subst i1, simp)+
        have calls4: "lnd_calls w4 = lnd_calls w @ gateway_calls svc lib invoice"
          "now w4 = now w" "set (accounts w3) \<subseteq> set (accounts w4)"
          using s4 fr3 by auto
        have fk4: "faults w = [] \<longrightarrow> faults w4 = []" "accounts_keyed w \<longrightarrow> accounts_keyed w4"
          using s4 fr3 by auto
        have mid_clean: "faults w = [] \<and> accounts_keyed w \<and> re \<noteq> None \<longrightarrow> mid = []"
          using s4 fr3 mid(3) by auto
        have nf_int: "faults w = [] \<and> accounts_keyed w
                 \<and> IdentityPubkey svc = DestinationPubkeyHex invoice
                \<longrightarrow> re = None
                   \<or> re = Some NotFound \<and> open_incoming (PaymentRequest invoice) w = None"
          using s4 fr3 oi3 by auto
        have mid_int: "re = None \<and> IdentityPubkey svc = DestinationPubkeyHex invoice
                \<longrightarrow> mid \<noteq> []"
          using s4 mid(1) p_facts(1) by auto
        have prin4: "principal_of invoice w4 p"
          unfolding principal_of_def using p_facts acc3 calls4(3) by blast
        have routed_gen: "pay_routed svc lib invoice w p mid invoice1 v"
          if "lnd_calls v = lnd_calls w4" and "set (accounts w4) \<subseteq> set (accounts v)"
            and "faults w4 = [] \<longrightarrow> faults v = []"
            and "accounts_keyed w4 \<longrightarrow> accounts_keyed v" for v
        proof -
          have "principal_of invoice v p"
            using prin4 that(2) unfolding principal_of_def by blast
          then show ?thesis
            unfolding pay_routed_def
            using p_facts(2) i1 calls4(1) fk4 mid(2) that(1,3,4) by simp
        qed
        show ?thesis
        proof (cases re)
          case (Some e)
          show ?thesis
          proof (cases "is_panic e")
            case True
            with run a1 da a2 ca ins p rt Some have res: "resp = None" "err = Some e"
                "invoice' = invoice1" "w' = w4"
              by (simp_all add: d)
            have pm: "mid = []" "IdentityPubkey svc \<noteq> DestinationPubkeyHex invoice"
              using s4 Some True mid(3) by auto
            have "pay_routed svc lib invoice w p mid invoice1 w'"
              unfolding res by (rule routed_gen) simp_all
            moreover have "invoices w4 = invoices w"
              using s4 Some fr3 by auto
            ultimately have "pay_failed svc invoice w p mid invoice1 resp err invoice' w'"
              unfolding pay_failed_def res using mid(1) pm True by auto
            moreover note \<open>pay_routed svc lib invoice w p mid invoice1 w'\<close>
            ultimately show ?thesis by blast
          next
            case False
            obtain r5 i5 w5 where
              hf: "HandleFailedPayment invoice1 p (Some e) w4 = (r5, i5, w5)"
              by (metis prod.exhaust)
            note s5 = HandleFailedPayment_outcome [OF hf]
            from run a1 da a2 ca ins p rt Some False hf have res: "resp = None" "err = Some e"
                "invoice' = i5" "w' = w5"
              by (simp_all add: d)
            have routed: "pay_routed svc lib invoice w p mid invoice1 w'"
              unfolding res by (rule routed_gen) (use s5 in simp_all)
            have rows: "invoices w5 = invoices w
               \<or> invoices w5 = map (\<lambda>x. if ID x = ID invoice then i5 else x) (invoices w)"
            proof -
              have "invoices w4 = invoices w" using s4 Some fr3 by auto
              with s5 i1'(2) show ?thesis by auto
            qed
            have "faults w = [] \<and> accounts_keyed w
                    \<longrightarrow> transaction_entries w5 \<noteq> transaction_entries w4"
            proof
              assume a: "faults w = [] \<and> accounts_keyed w"
              then have "no_faults 2 w4" "accounts_keyed w4"
                using fk4 by (simp_all add: no_faults_def)
              moreover have "\<exists>c \<in> set (accounts w4). acc_ID c = te_CreditAccountID p
                  \<and> acc_Type c \<noteq> AccountTypeCurrent"
                using acc3 calls4(3) p_facts(8) by auto
              ultimately show "transaction_entries w5 \<noteq> transaction_entries w4"
                using s5 by blast
            qed
            with s5 have "transaction_entries w5 = transaction_entries w4 \<and> i5 = invoice1
                 \<and> \<not> (faults w = [] \<and> accounts_keyed w)
               \<or> (\<exists>rev. transaction_entries w5 = transaction_entries w4 @ [rev]
                \<and> reverses p rev \<and> te_ParentID rev = 0)
                \<and> i5 = invoice1\<lparr>State := InvoiceStateError, ErrorMessage := Error e\<rparr>"
              using p_facts i1' by (auto simp: reverses_def)
            then have "pay_failed svc invoice w p mid invoice1 resp err invoice' w'"
              unfolding pay_failed_def res using mid(1) False mid_clean Some rows nf_int by auto
            with routed show ?thesis by blast
          qed
        next
          case None
          with s4 obtain route where route: "PaymentRoute pr = Some route"
              "IdentityPubkey svc = DestinationPubkeyHex invoice \<longrightarrow> TotalFees route = 0"
            by blast
          let ?i = "invoice1\<lparr>Preimage := PaymentPreimageStr pr, Fee := TotalFees route\<rparr>"
          obtain r5 i5 w5 where hs: "HandleSuccessfulPayment ?i p w4 = (r5, i5, w5)"
            by (metis prod.exhaust)
          note s5 = HandleSuccessfulPayment_outcome [OF hs]
          let ?r = "pr\<lparr>resp_TransactionEntry := Some p,
                        resp_Invoice := map_option (\<lambda>x. i5) (resp_Invoice pr)\<rparr>"
          from run a1 da a2 ca ins p rt None route hs have res: "resp = Some ?r" "err = r5"
              "invoice' = i5" "w' = w5"
            by (auto simp: d)
          have i5: "i5 = invoice1\<lparr>Preimage := PaymentPreimageStr ?r, Fee := TotalFees route,
                               State := InvoiceStateSettled, SettledAt := Some (now w)\<rparr>"
            using s5 calls4 by simp
          have routed: "pay_routed svc lib invoice w p mid invoice1 w'"
            unfolding res by (rule routed_gen) (use s5 in simp_all)
          have idi: "ID ?i = ID invoice" using i1'(2) by simp
          have rows: "\<exists>rows.
              (invoices w5 = rows
               \<or> invoices w5 = map (\<lambda>x. if ID x = ID invoice then i5 else x) rows)
              \<and> (faults w = [] \<longrightarrow>
                    invoices w5 = map (\<lambda>x. if ID x = ID invoice then i5 else x) rows)
              \<and> (if IdentityPubkey svc = DestinationPubkeyHex invoice
                  then \<exists>inc. open_incoming (PaymentRequest invoice) w = Some inc
                         \<and> rows = map (\<lambda>x. if ID x = ID inc
                                            then settled_internally inc (now w) else x)
                                       (invoices w)
                  else rows = invoices w)"
          proof (intro exI [of _ "invoices w4"] conjI)
            show "invoices w5 = invoices w4
               \<or> invoices w5 = map (\<lambda>x. if ID x = ID invoice then i5 else x) (invoices w4)"
              using s5 idi by auto
            have "faults w = [] \<longrightarrow> no_faults 5 w4"
              using fk4 by (simp add: no_faults_def)
            then show "faults w = [] \<longrightarrow>
                    invoices w5 = map (\<lambda>x. if ID x = ID invoice then i5 else x) (invoices w4)"
              using s5 idi by auto
            show "if IdentityPubkey svc = DestinationPubkeyHex invoice
                  then \<exists>inc. open_incoming (PaymentRequest invoice) w = Some inc
                         \<and> invoices w4 = map (\<lambda>x. if ID x = ID inc
                                            then settled_internally inc (now w) else x)
                                       (invoices w)
                  else invoices w4 = invoices w"
              using s4 None fr3 oi3 by auto
          qed
          have "faults w = [] \<longrightarrow> no_faults 5 w4"
            using fk4 by (simp add: no_faults_def)
          with s5 have clean: "faults w = [] \<longrightarrow> r5 = None \<or> r5 = Some InsufficientBalance"
            by blast
          from s5 have "(\<exists>e. r5 = Some e \<and> (e = StoreError \<or> e = InsufficientBalance))
             \<and> transaction_entries w5 = transaction_entries w4
           \<or> (r5 = None \<or> r5 = Some StoreError)
             \<and> (\<exists>f. transaction_entries w5 = transaction_entries w4 @ [f]
                   \<and> fee_of p i5 w5 f)"
            by blast
          then have "pay_settled svc invoice w p mid invoice1 resp err invoice' w'"
            unfolding pay_settled_def res using mid(1) route i5 clean rows mid_int None by auto
          with routed show ?thesis by blast
        qed
      qed
    qed
  qed
qed











section \<open>The space of preimages\<close>

text \<open>
  C10. Every preimage produced by \<open>makePreimageHex\<close> is 32 bytes long and each byte is
  one of the 16 characters of the hex alphabet \<open>0123456789abcdef\<close>; hence, over all
  random sources, at most \<open>16 ^ 32\<close> different preimages can be produced.
\<close>

theorem makePreimageHex_space:
  "length (makePreimageHex r) = 32
   \<and> set (makePreimageHex r) \<subseteq> set ''0123456789abcdef''
   \<and> card (set ''0123456789abcdef'') = 16
   \<and> finite (range makePreimageHex)
   \<and> card (range makePreimageHex) \<le> 16 ^ 32"
proof -
  let ?S = "{xs. set xs \<subseteq> set hexBytes \<and> length xs = 32}"
  have sub: "range makePreimageHex \<subseteq> ?S"
    using set_makePreimageHex length_makePreimageHex by auto
  have fin: "finite ?S"
    by (rule finite_lists_length_eq) simp
  have "card ?S = 16 ^ 32"
    using card_lists_length_eq [of "set hexBytes" 32] card_hexBytes by simp
  then have "card (range makePreimageHex) \<le> 16 ^ 32"
    using card_mono [OF fin sub] by simp
  moreover have "finite (range makePreimageHex)"
    using finite_subset [OF sub fin] .
  moreover have "set (makePreimageHex r) \<subseteq> set ''0123456789abcdef''"
    using set_makePreimageHex [of r] by (simp only: hexBytes_def)
  moreover have "card (set ''0123456789abcdef'') = 16"
    using card_hexBytes by (simp only: hexBytes_def)
  ultimately show ?thesis
    using length_makePreimageHex by blast
qed

section \<open>External settlement: the gateway's verdict is in its response\<close>

text \<open>
  C6. When \<open>SendPaymentSync\<close> receives a response from the gateway (the request could be
  built and the call returned no transport error): if the payment-error field of the
  response is not empty or its preimage is absent, \<open>SendPaymentSync\<close> returns an error
  (carrying the payment-error text) and no payment data; it returns success only when
  the payment-error field is empty and a preimage is present, and then the response
  carries the preimage, the payment hash (both also hex encoded) and the route.
\<close>

theorem SendPaymentSync_payload:
  assumes "createLnRpcSendRequest lib invoice = (Inr req, invoice1)"
      and "lnd_SendPaymentSync (LndClient svc) req = Inr res"
      and "SendPaymentSync svc lib invoice w = ((resp, err), invoice', w')"
  shows "(lnrpc_PaymentError res \<noteq> [] \<or> lnrpc_PaymentPreimage res = None \<longrightarrow>
            err = Some (PaymentFailed (lnrpc_PaymentError res))
            \<and> resp = SendPaymentResponse_zero)
       \<and> (err = None \<longrightarrow>
            lnrpc_PaymentError res = []
            \<and> (\<exists>p route. lnrpc_PaymentPreimage res = Some p
                 \<and> lnrpc_PaymentRoute res = Some route
                 \<and> PaymentPreimage resp = p \<and> PaymentPreimageStr resp = EncodeToString p
                 \<and> PaymentHash resp = lnrpc_PaymentHash res
                 \<and> PaymentHashStr resp = EncodeToString (lnrpc_PaymentHash res)
                 \<and> PaymentRoute resp = Some route))
       \<and> (lnrpc_PaymentError res = [] \<and> lnrpc_PaymentPreimage res \<noteq> None
            \<and> lnrpc_PaymentRoute res \<noteq> None \<longrightarrow> err = None)"
  using assms
  by (auto simp: SendPaymentSync_def Let_def SendPaymentResponse_zero_def
           split: option.splits if_splits)

theorem SendPaymentSync_payload_witness:
  "createLnRpcSendRequest sample_lib (outgoing_invoice 3 ''03bb'')
     = (Inr \<lparr>req_Dest = [], req_Amt = 500, req_PaymentHash = [],
             req_PaymentRequest = ''lnbc500'', req_FeeLimit = Some (FeeLimit_Fixed 300),
             req_DestFeatures = [], req_DestCustomRecords = None\<rparr>,
        outgoing_invoice 3 ''03bb'')
   \<and> fst (SendPaymentSync svc_failing sample_lib (outgoing_invoice 3 ''03bb'')
             (sample_world 1000))
       = (SendPaymentResponse_zero, Some (PaymentFailed ''no_route''))
   \<and> snd (fst (SendPaymentSync svc_ok sample_lib (outgoing_invoice 3 ''03bb'')
                  (sample_world 1000))) = None"
proof -
  let ?inv = "outgoing_invoice 3 ''03bb''"
  let ?req = "\<lparr>req_Dest = [], req_Amt = 500, req_PaymentHash = [],
             req_PaymentRequest = ''lnbc500'', req_FeeLimit = Some (FeeLimit_Fixed 300),
             req_DestFeatures = [], req_DestCustomRecords = None\<rparr>"
  have h1: "createLnRpcSendRequest sample_lib ?inv = (Inr ?req, ?inv)"
    by (simp add: createLnRpcSendRequest_def outgoing_invoice_def)
  have h2: "lnd_SendPaymentSync (LndClient svc_failing) ?req
              = Inr \<lparr>lnrpc_PaymentError = ''no_route'', lnrpc_PaymentPreimage = None,
                     lnrpc_PaymentRoute = None, lnrpc_PaymentHash = []\<rparr>"
    by (simp add: svc_failing_def gateway_failing_def)
  have h2': "lnd_SendPaymentSync (LndClient svc_ok) ?req
              = Inr \<lparr>lnrpc_PaymentError = [], lnrpc_PaymentPreimage = Some ''pre'',
                     lnrpc_PaymentRoute = Some \<lparr>TotalAmt = 501, TotalFees = 1\<rparr>,
                     lnrpc_PaymentHash = ''hash''\<rparr>"
    by (simp add: svc_ok_def gateway_ok_def)
  obtain resp err i' w' where
    h3: "SendPaymentSync svc_failing sample_lib ?inv (sample_world 1000) = ((resp, err), i', w')"
    by (metis prod.exhaust)
  obtain resp2 err2 i2 w2 where
    h3': "SendPaymentSync svc_ok sample_lib ?inv (sample_world 1000) = ((resp2, err2), i2, w2)"
    by (metis prod.exhaust)
  from SendPaymentSync_payload [OF h1 h2 h3] SendPaymentSync_payload [OF h1 h2' h3'] h1 h3 h3'
  show ?thesis by simp
qed

section \<open>Preimages and payment hashes\<close>

lemma AddIncomingInvoice_Inr_elim:
  assumes "AddIncomingInvoice svc lib userID amount memo dh w = (Inr created, w')"
  obtains i1 w1 dhb res where
    "InsertInvoice (new_incoming_invoice userID amount memo dh (now w)) w = (Inr i1, w1)"
    "DecodeString dh = (dhb, None)"
    "lnd_AddInvoice (LndClient svc) (new_lnInvoice memo dhb amount (makePreimageHex (rnd lib)))
       = Inr res"
    "created = i1\<lparr>PaymentRequest := air_PaymentRequest res,
                   RHash := EncodeToString (air_RHash res),
                   Preimage := EncodeToString (makePreimageHex (rnd lib)),
                   AddIndex := air_AddIndex res,
                   DestinationPubkeyHex := IdentityPubkey svc,
                   State := InvoiceStateOpen\<rparr>"
    "UpdateInvoice created
       (w1\<lparr>lnd_calls := lnd_calls w1 @
              [CallAddInvoice (new_lnInvoice memo dhb amount (makePreimageHex (rnd lib)))]\<rparr>)
       = (None, w')"
proof -
  let ?inv0 = "new_incoming_invoice userID amount memo dh (now w)"
  note d = AddIncomingInvoice_def Let_def new_incoming_invoice_def new_lnInvoice_def
  from assms obtain i1 w1 where ins: "InsertInvoice ?inv0 w = (Inr i1, w1)"
    by (auto simp: d split: prod.splits sum.splits)
  from assms ins obtain dhb where dec: "DecodeString dh = (dhb, None)"
    by (auto simp: d split: prod.splits sum.splits option.splits)
  let ?ln = "new_lnInvoice memo dhb amount (makePreimageHex (rnd lib))"
  from assms ins dec obtain res where gw: "lnd_AddInvoice (LndClient svc) ?ln = Inr res"
    by (auto simp: d split: prod.splits sum.splits option.splits)
  from assms ins dec gw have
    "created = i1\<lparr>PaymentRequest := air_PaymentRequest res,
                   RHash := EncodeToString (air_RHash res),
                   Preimage := EncodeToString (makePreimageHex (rnd lib)),
                   AddIndex := air_AddIndex res,
                   DestinationPubkeyHex := IdentityPubkey svc,
                   State := InvoiceStateOpen\<rparr>"
    "UpdateInvoice created (w1\<lparr>lnd_calls := lnd_calls w1 @ [CallAddInvoice ?ln]\<rparr>)
       = (None, w')"
    by (auto simp: d split: prod.splits sum.splits option.splits)
  with ins dec gw show thesis by (rule that)
qed

lemma AddIncomingInvoice_created:
  assumes "AddIncomingInvoice svc lib userID amount memo dh w = (Inr created, w')"
  shows "Preimage created = EncodeToString (makePreimageHex (rnd lib))"
    and "created \<in> set (invoices w')"
    and "State created = InvoiceStateOpen"
proof -
  from assms obtain i1 w1 dhb res where
      ins: "InsertInvoice (new_incoming_invoice userID amount memo dh (now w)) w = (Inr i1, w1)"
      and "DecodeString dh = (dhb, None)"
      and "lnd_AddInvoice (LndClient svc)
             (new_lnInvoice memo dhb amount (makePreimageHex (rnd lib))) = Inr res"
      and cr: "created = i1\<lparr>PaymentRequest := air_PaymentRequest res,
                   RHash := EncodeToString (air_RHash res),
                   Preimage := EncodeToString (makePreimageHex (rnd lib)),
                   AddIndex := air_AddIndex res,
                   DestinationPubkeyHex := IdentityPubkey svc,
                   State := InvoiceStateOpen\<rparr>"
      and upd: "UpdateInvoice created
       (w1\<lparr>lnd_calls := lnd_calls w1 @
              [CallAddInvoice (new_lnInvoice memo dhb amount (makePreimageHex (rnd lib)))]\<rparr>)
       = (None, w')"
    by (rule AddIncomingInvoice_Inr_elim)
  show "Preimage created = EncodeToString (makePreimageHex (rnd lib))"
    and "State created = InvoiceStateOpen"
    using cr by simp_all
  have "ID created = ID i1" using cr by simp
  moreover have "i1 \<in> set (invoices w1)"
    using InsertInvoice_result [OF ins] by auto
  ultimately show "created \<in> set (invoices w')"
    using UpdateInvoice_result [OF upd] by force
qed

lemma createLnRpcSendRequest_keysend:
  assumes "Keysend invoice"
    and "createLnRpcSendRequest lib invoice = (Inr req, invoice')"
  shows "\<exists>records. req_DestCustomRecords req = Some records
           \<and> DestinationCustomRecords invoice' = Some records
           \<and> records KEYSEND_CUSTOM_RECORD = Some (makePreimageHex (rnd lib))
           \<and> req_PaymentHash req = sha256 lib (makePreimageHex (rnd lib))"
  using assms
  by (auto simp: createLnRpcSendRequest_def Let_def split: prod.splits option.splits)

text \<open>
  C9. Preimage/hash round trip. For every keysend request built by
  \<open>createLnRpcSendRequest\<close>, the payment hash of the request is the SHA-256 hash of the
  freshly generated preimage, and that preimage is the keysend custom record of the
  request (and of the invoice). For every incoming invoice created by
  \<open>AddIncomingInvoice\<close>, decoding the stored preimage string from hex succeeds and
  yields exactly the 32 bytes \<open>makePreimageHex\<close> generated; the created invoice is the
  row of the store.
\<close>

theorem preimage_hash_round_trip:
  "(Keysend invoice \<and> createLnRpcSendRequest lib invoice = (Inr req, invoice') \<longrightarrow>
      (\<exists>records. req_DestCustomRecords req = Some records
           \<and> DestinationCustomRecords invoice' = Some records
           \<and> records KEYSEND_CUSTOM_RECORD = Some (makePreimageHex (rnd lib))
           \<and> req_PaymentHash req = sha256 lib (makePreimageHex (rnd lib))))
   \<and> (AddIncomingInvoice svc lib userID amount memo dh w = (Inr created, w') \<longrightarrow>
        created \<in> set (invoices w')
        \<and> DecodeString (Preimage created) = (makePreimageHex (rnd lib), None)
        \<and> length (fst (DecodeString (Preimage created))) = 32)"
proof (intro conjI impI)
  assume "Keysend invoice \<and> createLnRpcSendRequest lib invoice = (Inr req, invoice')"
  then show "\<exists>records. req_DestCustomRecords req = Some records
           \<and> DestinationCustomRecords invoice' = Some records
           \<and> records KEYSEND_CUSTOM_RECORD = Some (makePreimageHex (rnd lib))
           \<and> req_PaymentHash req = sha256 lib (makePreimageHex (rnd lib))"
    using createLnRpcSendRequest_keysend by blast
next
  assume a: "AddIncomingInvoice svc lib userID amount memo dh w = (Inr created, w')"
  show "created \<in> set (invoices w')"
    by (rule AddIncomingInvoice_created(2) [OF a])
  show "DecodeString (Preimage created) = (makePreimageHex (rnd lib), None)"
    using AddIncomingInvoice_created(1) [OF a] DecodeString_EncodeToString by simp
  then show "length (fst (DecodeString (Preimage created))) = 32"
    by (simp add: length_makePreimageHex)
qed

theorem preimage_hash_round_trip_witness:
  "(\<exists>req inv'. Keysend ((outgoing_invoice 3 ''03bb'')\<lparr>Keysend := True, DestinationCustomRecords := Some Map.empty\<rparr>)
       \<and> createLnRpcSendRequest sample_lib
            ((outgoing_invoice 3 ''03bb'')\<lparr>Keysend := True, DestinationCustomRecords := Some Map.empty\<rparr>)
          = (Inr req, inv')
       \<and> req_PaymentHash req = sha256 sample_lib (makePreimageHex (rnd sample_lib)))
   \<and> (\<exists>created w'. AddIncomingInvoice svc_ok sample_lib 2 500 ''memo'' [] (sample_world 0)
                      = (Inr created, w')
        \<and> created \<in> set (invoices w')
        \<and> DecodeString (Preimage created) = (makePreimageHex (rnd sample_lib), None))"
proof -
  let ?inv = "(outgoing_invoice 3 ''03bb'')\<lparr>Keysend := True, DestinationCustomRecords := Some Map.empty\<rparr>"
  have k: "Keysend ?inv" by simp
  have "\<exists>req inv'. createLnRpcSendRequest sample_lib ?inv = (Inr req, inv')"
    by (simp add: createLnRpcSendRequest_def outgoing_invoice_def fromHexChar_def Let_def)
  then obtain req inv' where h1: "createLnRpcSendRequest sample_lib ?inv = (Inr req, inv')"
    by blast
  have "\<exists>created w'. AddIncomingInvoice svc_ok sample_lib 2 500 ''memo'' [] (sample_world 0)
                      = (Inr created, w')"
    by (simp add: AddIncomingInvoice_def InsertInvoice_def UpdateInvoice_def exec_stmt_def
                  sample_world_def svc_ok_def gateway_ok_def Let_def)
  then obtain created w' where
    h2: "AddIncomingInvoice svc_ok sample_lib 2 500 ''memo'' [] (sample_world 0) = (Inr created, w')"
    by blast
  from preimage_hash_round_trip [of ?inv sample_lib req inv' svc_ok 2 500 "''memo''" "[]"
         "sample_world 0" created w'] k h1 h2
  show ?thesis by auto
qed

section \<open>Creating an incoming invoice\<close>






section \<open>Internal settlement\<close>

text \<open>
  C4. When the lookup of \<open>SendInternalPayment\<close> has a matching open incoming invoice
  \<open>inc\<close>: every response returned without an error carries the preimage stored on
  \<open>inc\<close>, as the hex string and as the bytes decoded from it (the original bytes, when
  the string is a hex encoding), and a route whose total fees are zero; and the
  recipient's row in the store is \<open>inc\<close> with \<open>internal = true\<close>, state \<open>Settled\<close>
  and the clock reading as settlement time. Such a response is returned whenever the
  store meets no infrastructure fault in the five statements of the function and the
  accounts have distinct keys.
\<close>

theorem SendInternalPayment_known_preimage:
  assumes found: "open_incoming (PaymentRequest invoice) w = Some inc"
  shows "(\<forall>resp w'. SendInternalPayment svc invoice w = ((resp, None), w') \<longrightarrow>
            PaymentPreimageStr resp = Preimage inc
            \<and> PaymentPreimage resp = fst (DecodeString (Preimage inc))
            \<and> (\<forall>p. Preimage inc = EncodeToString p \<longrightarrow> PaymentPreimage resp = p)
            \<and> (\<exists>route. PaymentRoute resp = Some route \<and> TotalFees route = 0)
            \<and> invoices w' =
                map (\<lambda>x. if ID x = ID inc then settled_internally inc (now w) else x)
                    (invoices w)
            \<and> settled_internally inc (now w) \<in> set (invoices w')
            \<and> Internal (settled_internally inc (now w))
            \<and> State (settled_internally inc (now w)) = InvoiceStateSettled
            \<and> SettledAt (settled_internally inc (now w)) = Some (now w))
       \<and> (no_faults 5 w \<and> accounts_keyed w \<longrightarrow>
            (\<exists>resp w'. SendInternalPayment svc invoice w = ((resp, None), w')))"
proof (rule conjI)
  show "no_faults 5 w \<and> accounts_keyed w \<longrightarrow>
            (\<exists>resp w'. SendInternalPayment svc invoice w = ((resp, None), w'))"
  proof
    assume ok: "no_faults 5 w \<and> accounts_keyed w"
    obtain resp err w' where run: "SendInternalPayment svc invoice w = ((resp, err), w')"
      by (metis prod.exhaust)
    from SendInternalPayment_outcome [OF run] ok found have "err = None"
      by auto
    with run show "\<exists>resp w'. SendInternalPayment svc invoice w = ((resp, None), w')"
      by blast
  qed
next
  have inc: "inc \<in> set (invoices w)"
    using found by (auto simp: open_incoming_def find_Some_iff)
  {
  fix resp w'
  assume run: "SendInternalPayment svc invoice w = ((resp, None), w')"
  from SendInternalPayment_outcome [OF run] found
  have resp: "resp = \<lparr>PaymentPreimage = fst (DecodeString (Preimage inc)),
                        PaymentPreimageStr = Preimage inc, PaymentError = [],
                        PaymentHash = fst (DecodeString (RHash invoice)),
                        PaymentHashStr = RHash invoice,
                        PaymentRoute = Some \<lparr>TotalAmt = Amount invoice, TotalFees = 0\<rparr>,
                        resp_TransactionEntry = None, resp_Invoice = Some invoice\<rparr>"
    and inv: "invoices w' =
                map (\<lambda>x. if ID x = ID inc then settled_internally inc (now w) else x)
                    (invoices w)"
    by auto
  have "PaymentPreimageStr resp = Preimage inc
            \<and> PaymentPreimage resp = fst (DecodeString (Preimage inc))
            \<and> (\<forall>p. Preimage inc = EncodeToString p \<longrightarrow> PaymentPreimage resp = p)
            \<and> (\<exists>route. PaymentRoute resp = Some route \<and> TotalFees route = 0)"
    using resp by (simp add: DecodeString_EncodeToString)
  moreover have "settled_internally inc (now w) \<in> set (invoices w')"
    unfolding inv using inc by force
  moreover have "Internal (settled_internally inc (now w))
            \<and> State (settled_internally inc (now w)) = InvoiceStateSettled
            \<and> SettledAt (settled_internally inc (now w)) = Some (now w)"
    by (simp add: settled_internally_def)
  ultimately have "PaymentPreimageStr resp = Preimage inc
            \<and> PaymentPreimage resp = fst (DecodeString (Preimage inc))
            \<and> (\<forall>p. Preimage inc = EncodeToString p \<longrightarrow> PaymentPreimage resp = p)
            \<and> (\<exists>route. PaymentRoute resp = Some route \<and> TotalFees route = 0)
            \<and> invoices w' =
                map (\<lambda>x. if ID x = ID inc then settled_internally inc (now w) else x)
                    (invoices w)
            \<and> settled_internally inc (now w) \<in> set (invoices w')
            \<and> Internal (settled_internally inc (now w))
            \<and> State (settled_internally inc (now w)) = InvoiceStateSettled
            \<and> SettledAt (settled_internally inc (now w)) = Some (now w)"
    using inv by blast
  }
  then show "\<forall>resp w'. SendInternalPayment svc invoice w = ((resp, None), w') \<longrightarrow>
            PaymentPreimageStr resp = Preimage inc
            \<and> PaymentPreimage resp = fst (DecodeString (Preimage inc))
            \<and> (\<forall>p. Preimage inc = EncodeToString p \<longrightarrow> PaymentPreimage resp = p)
            \<and> (\<exists>route. PaymentRoute resp = Some route \<and> TotalFees route = 0)
            \<and> invoices w' =
                map (\<lambda>x. if ID x = ID inc then settled_internally inc (now w) else x)
                    (invoices w)
            \<and> settled_internally inc (now w) \<in> set (invoices w')
            \<and> Internal (settled_internally inc (now w))
            \<and> State (settled_internally inc (now w)) = InvoiceStateSettled
            \<and> SettledAt (settled_internally inc (now w)) = Some (now w)"
    by blast
qed

theorem SendInternalPayment_known_preimage_witness:
  "open_incoming (PaymentRequest (outgoing_invoice 2 ''02aa'')) (sample_world 1000)
     = Some incoming_invoice
   \<and> no_faults 5 (sample_world 1000) \<and> accounts_keyed (sample_world 1000)
   \<and> (\<exists>resp w'. SendInternalPayment svc_ok (outgoing_invoice 2 ''02aa'') (sample_world 1000)
                    = ((resp, None), w')
         \<and> PaymentPreimageStr resp = ''6b6c'' \<and> PaymentPreimage resp = ''kl''
         \<and> settled_internally incoming_invoice 1000 \<in> set (invoices w'))"
proof -
  have h: "open_incoming (PaymentRequest (outgoing_invoice 2 ''02aa'')) (sample_world 1000)
     = Some incoming_invoice"
    by (simp add: open_incoming_def sample_world_def outgoing_invoice_def incoming_invoice_def)
  have nf: "no_faults 5 (sample_world 1000)" "accounts_keyed (sample_world 1000)"
    by (simp_all add: no_faults_def accounts_keyed_def sample_world_def)
  have pre: "Preimage incoming_invoice = ''6b6c''" "now (sample_world 1000) = 1000"
    by (simp_all add: incoming_invoice_def sample_world_def)
  have dec: "fst (DecodeString ''6b6c'') = ''kl''"
    by code_simp
  from SendInternalPayment_known_preimage [OF h, of svc_ok] nf h pre dec
  show ?thesis by (simp only:) blast
qed


section \<open>The balance gate of \<open>PayInvoice\<close>\<close>

lemma AccountFor_faultless:
  assumes "AccountFor k u w = (Inr a, w1)"
  shows "AccountFor k u (w\<lparr>faults := []\<rparr>) = (Inr a, w1\<lparr>faults := []\<rparr>)"
  using assms
  by (auto simp: AccountFor_def exec_stmt_def Let_def
           split: list.splits bool.splits option.splits)

lemma CurrentUserBalance_faultless:
  assumes "AccountFor AccountTypeCurrent u w = (Inr a, w1)"
  shows "fst (CurrentUserBalance u (w\<lparr>faults := []\<rparr>)) = Inr (account_balance w (acc_ID a))"
proof -
  have "account_balance (w1\<lparr>faults := []\<rparr>) (acc_ID a) = account_balance w (acc_ID a)"
    using AccountFor_frame(2) [OF assms] by (simp add: account_balance_def)
  then show ?thesis
    using AccountFor_faultless [OF assms]
    by (simp add: CurrentUserBalance_def exec_stmt_def)
qed

text \<open>
  C2. When the payer's current balance (as \<open>CurrentUserBalance\<close> reports it from a store
  that answers) cannot cover the amount of the invoice, \<open>PayInvoice\<close> ends at the insert
  of the provisional entry: it returns no response and the error \<open>InsufficientBalance\<close>
  (the store's own error, when an infrastructure fault hits one of the three
  statements up to the insert), the gateway is not called, no entry and no invoice row
  is added or changed, and the invoice is as it was.
\<close>

theorem PayInvoice_balance_gate:
  assumes bal: "fst (CurrentUserBalance (UserID invoice) (w\<lparr>faults := []\<rparr>)) = Inr b"
      and short: "b < Amount invoice"
      and run: "PayInvoice svc lib invoice w = ((resp, err), invoice', w')"
  shows "resp = None
       \<and> (err = Some InsufficientBalance \<or> err = Some StoreError)
       \<and> (no_faults 3 w \<longrightarrow> err = Some InsufficientBalance)
       \<and> lnd_calls w' = lnd_calls w
       \<and> transaction_entries w' = transaction_entries w
       \<and> invoices w' = invoices w
       \<and> invoice' = invoice"
proof -
  note d = PayInvoice_def Let_def
  obtain r1 w1 where a1: "AccountFor AccountTypeCurrent (UserID invoice) w = (r1, w1)"
    by fastforce
  note s1 = AccountFor_all [OF a1]
  show ?thesis
  proof (cases r1)
    case (Inl e1)
    with run a1 have "resp = None" "err = Some e1" "invoice' = invoice" "w' = w1"
      by (simp_all add: d)
    moreover have "\<not> no_faults 3 w"
      using Inl s1 no_faults_step(2) [of 3 w w1] by auto
    ultimately show ?thesis using Inl s1 by auto
  next
    case da: (Inr debitAccount)
    have b: "account_balance w (acc_ID debitAccount) = b"
      using CurrentUserBalance_faultless [of "UserID invoice" w debitAccount w1] a1 da bal
      by simp
    have nf1: "no_faults 3 w \<longrightarrow> no_faults 2 w1"
      using s1 no_faults_step(1) [of 3 w w1] by auto
    obtain r2 w2 where a2: "AccountFor AccountTypeOutgoing (UserID invoice) w1 = (r2, w2)"
      by fastforce
    note s2 = AccountFor_all [OF a2]
    show ?thesis
    proof (cases r2)
      case (Inl e2)
      with run a1 da a2 have "resp = None" "err = Some e2" "invoice' = invoice" "w' = w2"
        by (simp_all add: d)
      moreover have "\<not> no_faults 3 w"
        using Inl s2 nf1 no_faults_step(2) [of 2 w1 w2] by auto
      ultimately show ?thesis using Inl s1 s2 by auto
    next
      case ca: (Inr creditAccount)
      let ?e = "\<lparr>te_ID = 0, te_UserID = UserID invoice, te_InvoiceID = ID invoice,
                 te_ParentID = 0, te_CreditAccountID = acc_ID creditAccount,
                 te_DebitAccountID = acc_ID debitAccount, te_Amount = Amount invoice\<rparr>"
      obtain r3 w3 where ins: "InsertTransactionEntry ?e w2 = (r3, w3)" by fastforce
      note s3 = InsertTransactionEntry_all [OF ins]
      have nf2: "no_faults 3 w \<longrightarrow> no_faults 1 w2"
        using s2 nf1 no_faults_step(1) [of 2 w1 w2] by auto
      have "debitAccount \<in> set (accounts w2)" "acc_Type debitAccount = AccountTypeCurrent"
        using da s1 s2 by auto
      moreover have "account_balance w2 (acc_ID debitAccount) < Amount invoice"
        using b short a1 a2 by simp
      ultimately have rej: "balance_guard_rejects w2 ?e"
        using guard_rejects_current [of debitAccount w2 ?e] by simp
      then obtain e3 where e3: "r3 = Inl e3" "e3 = StoreError \<or> e3 = InsufficientBalance"
        using s3 by (cases r3) auto
      with run a1 da a2 ca ins have res: "resp = None" "err = Some e3" "invoice' = invoice"
          "w' = w3"
        by (simp_all add: d)
      have "no_faults 3 w \<longrightarrow> e3 = InsufficientBalance"
        using e3 s3 nf2 no_faults_step(2) [of 1 w2 w3] by auto
      then show ?thesis
        unfolding res using e3 s1 s2 s3 by auto
    qed
  qed
qed

theorem PayInvoice_balance_gate_witness:
  "fst (CurrentUserBalance (UserID (outgoing_invoice 3 ''03bb''))
          ((sample_world 100)\<lparr>faults := []\<rparr>)) = Inr 100
   \<and> (100::int) < Amount (outgoing_invoice 3 ''03bb'')
   \<and> no_faults 3 (sample_world 100)
   \<and> fst (PayInvoice svc_ok sample_lib (outgoing_invoice 3 ''03bb'') (sample_world 100))
       = (None, Some InsufficientBalance)
   \<and> lnd_calls (snd (snd (PayInvoice svc_ok sample_lib (outgoing_invoice 3 ''03bb'')
                              (sample_world 100)))) = []"
proof -
  let ?i = "outgoing_invoice 3 ''03bb''"
  have bal: "fst (CurrentUserBalance (UserID ?i) ((sample_world 100)\<lparr>faults := []\<rparr>)) = Inr 100"
    by (simp add: CurrentUserBalance_def AccountFor_def exec_stmt_def sample_world_def
                  outgoing_invoice_def account_balance_def)
  have short: "(100::int) < Amount ?i" by (simp add: outgoing_invoice_def)
  have nf: "no_faults 3 (sample_world 100)" by (simp add: no_faults_def sample_world_def)
  have calls: "lnd_calls (sample_world 100) = []" by (simp add: sample_world_def)
  obtain resp err i' w' where
    run: "PayInvoice svc_ok sample_lib ?i (sample_world 100) = ((resp, err), i', w')"
    by (metis prod.exhaust)
  from PayInvoice_balance_gate [OF bal short run] nf bal short calls run
  show ?thesis by simp
qed


section \<open>The routing decision of \<open>PayInvoice\<close>\<close>




section \<open>The outcomes of \<open>PayInvoice\<close>\<close>







section \<open>The amounts of the entries\<close>

text \<open>
  Not every entry has a strictly positive amount: an internal payment of 500 succeeds
  and its fee entry, written as for every successful payment, carries the fee of the
  synthesized route, which is 0.
\<close>

theorem fee_entry_can_be_zero:
  "fst (PayInvoice svc_ok sample_lib (outgoing_invoice 2 ''02aa'') (sample_world 1000))
     \<noteq> (None, None)
   \<and> snd (fst (PayInvoice svc_ok sample_lib (outgoing_invoice 2 ''02aa'') (sample_world 1000)))
       = None
   \<and> last (transaction_entries (snd (snd (PayInvoice svc_ok sample_lib
               (outgoing_invoice 2 ''02aa'') (sample_world 1000)))))
       = \<lparr>te_ID = 4, te_UserID = 1, te_InvoiceID = 2, te_ParentID = 2,
          te_CreditAccountID = 6, te_DebitAccountID = 1, te_Amount = 0\<rparr>
   \<and> \<not> 0 < te_Amount (last (transaction_entries (snd (snd (PayInvoice svc_ok sample_lib
               (outgoing_invoice 2 ''02aa'') (sample_world 1000))))))"
  by (simp add: PayInvoice_def AccountFor_def InsertTransactionEntry_def exec_stmt_def
        balance_guard_rejects_def account_balance_def route_payment_def
        SendInternalPayment_def SelectOpenIncomingInvoice_def
        HandleSuccessfulPayment_def UpdateInvoice_def
        CurrentUserBalance_def fresh_id_def Let_def SendPaymentResponse_zero_def
        sample_world_def outgoing_invoice_def incoming_invoice_def svc_ok_def gateway_ok_def
        sample_lib_def)

lemma pay_routed_amounts:
  assumes "pay_routed svc lib invoice w p mid invoice1 w'"
  shows "\<forall>e \<in> set (p # mid). te_Amount e = Amount invoice"
proof -
  from assms have a: "principal_of invoice w' p"
    and m: "mid = []
          \<or> IdentityPubkey svc = DestinationPubkeyHex invoice
            \<and> (\<exists>e inc. mid = [e] \<and> open_incoming (PaymentRequest invoice) w = Some inc
                  \<and> te_Amount e = Amount invoice \<and> te_ParentID e = 0
                  \<and> te_InvoiceID e = ID inc \<and> te_UserID e = UserID inc)"
    unfolding pay_routed_def by simp_all
  from a have "te_Amount p = Amount invoice" by (simp add: principal_of_def)
  moreover from m have "\<forall>e \<in> set mid. te_Amount e = Amount invoice" by auto
  ultimately show ?thesis by simp
qed

lemma pay_failed_amounts:
  assumes f: "pay_failed svc invoice w p mid invoice1 resp err invoice' w'"
    and a: "\<forall>e \<in> set (p # mid). te_Amount e = Amount invoice"
  shows "resp = None \<and> err \<noteq> None
       \<and> (\<exists>main. transaction_entries w' = transaction_entries w @ main
             \<and> (\<forall>e \<in> set main. te_Amount e = Amount invoice))"
proof -
  from f obtain e where e: "resp = None" "err = Some e"
    and alt: "transaction_entries w' = transaction_entries w @ p # mid
              \<or> (\<exists>rev. transaction_entries w' = transaction_entries w @ p # mid @ [rev]
                      \<and> reverses p rev)"
    unfolding pay_failed_def by blast
  from alt have "\<exists>main. transaction_entries w' = transaction_entries w @ main
             \<and> (\<forall>e \<in> set main. te_Amount e = Amount invoice)"
  proof
    assume "transaction_entries w' = transaction_entries w @ p # mid"
    with a show ?thesis by blast
  next
    assume "\<exists>rev. transaction_entries w' = transaction_entries w @ p # mid @ [rev]
                      \<and> reverses p rev"
    then obtain rev where r: "transaction_entries w' = transaction_entries w @ (p # mid @ [rev])"
        "reverses p rev"
      by auto
    have "\<forall>e \<in> set (p # mid @ [rev]). te_Amount e = Amount invoice"
      using a r(2) by (simp add: reverses_def)
    with r(1) show ?thesis by blast
  qed
  with e show ?thesis by simp
qed

lemma pay_settled_amounts:
  assumes f: "pay_settled svc invoice w p mid invoice1 resp err invoice' w'"
  shows "\<exists>r route. resp = Some r \<and> PaymentRoute r = Some route
           \<and> (IdentityPubkey svc = DestinationPubkeyHex invoice \<longrightarrow> TotalFees route = 0)
           \<and> (err \<noteq> None \<and> transaction_entries w' = transaction_entries w @ (p # mid) @ []
              \<or> (\<exists>f. transaction_entries w' = transaction_entries w @ (p # mid) @ [f]
                    \<and> te_Amount f = TotalFees route \<and> te_ParentID f = te_ID p))"
proof -
  from f obtain r route where r: "resp = Some r" "PaymentRoute r = Some route"
      "IdentityPubkey svc = DestinationPubkeyHex invoice \<longrightarrow> TotalFees route = 0"
    and i': "invoice' = invoice1\<lparr>Preimage := PaymentPreimageStr r, Fee := TotalFees route,
                             State := InvoiceStateSettled, SettledAt := Some (now w)\<rparr>"
    and ent: "(\<exists>e. err = Some e) \<and> transaction_entries w' = transaction_entries w @ p # mid
         \<or> (\<exists>f. transaction_entries w' = transaction_entries w @ p # mid @ [f]
                 \<and> fee_of p invoice' w' f)"
    unfolding pay_settled_def by blast
  have fee: "fee_of p invoice' w' f \<Longrightarrow> te_Amount f = TotalFees route \<and> te_ParentID f = te_ID p"
    for f
    by (simp add: fee_of_def i')
  from ent fee have "err \<noteq> None \<and> transaction_entries w' = transaction_entries w @ (p # mid) @ []
              \<or> (\<exists>f. transaction_entries w' = transaction_entries w @ (p # mid) @ [f]
                    \<and> te_Amount f = TotalFees route \<and> te_ParentID f = te_ID p)"
    by auto
  with r show ?thesis by blast
qed

text \<open>
  C7, as the code has it. The entries a run of \<open>PayInvoice\<close> writes are, in order, entries
  whose amount is the amount of the invoice (the principal entry, the recipient's
  entry of \<open>SendInternalPayment\<close>, the reversal of \<open>HandleFailedPayment\<close>), hence
  strictly positive when the invoice amount is, and then at most one fee entry, whose
  amount is the total fee of the payment route; a run without error always writes the
  fee entry, and for an internal payment its amount is 0.
\<close>

theorem PayInvoice_entry_amounts:
  assumes run: "PayInvoice svc lib invoice w = ((resp, err), invoice', w')"
  shows "\<exists>main fee. transaction_entries w' = transaction_entries w @ main @ fee
           \<and> (\<forall>e \<in> set main. te_Amount e = Amount invoice)
           \<and> (0 < Amount invoice \<longrightarrow> (\<forall>e \<in> set main. 0 < te_Amount e))
           \<and> (fee = [] \<and> err \<noteq> None
              \<or> (\<exists>f r route. fee = [f] \<and> resp = Some r \<and> PaymentRoute r = Some route
                    \<and> te_Amount f = TotalFees route
                    \<and> (IdentityPubkey svc = DestinationPubkeyHex invoice
                          \<longrightarrow> te_Amount f = 0)))"
proof -
  have fin: ?thesis
    if ent: "transaction_entries w' = transaction_entries w @ main @ fee"
      and am: "\<forall>e \<in> set main. te_Amount e = Amount invoice"
      and fe: "fee = [] \<and> err \<noteq> None
              \<or> (\<exists>f r route. fee = [f] \<and> resp = Some r \<and> PaymentRoute r = Some route
                    \<and> te_Amount f = TotalFees route
                    \<and> (IdentityPubkey svc = DestinationPubkeyHex invoice
                          \<longrightarrow> te_Amount f = 0))"
    for main fee
  proof -
    from am have "0 < Amount invoice \<longrightarrow> (\<forall>e \<in> set main. 0 < te_Amount e)" by simp
    with ent am fe show ?thesis
      by (intro exI [of _ main] exI [of _ fee] conjI)
  qed
  from PayInvoice_outcome [OF run] consider
      (early) "pay_early invoice w resp err invoice' w'"
    | (failed) p mid invoice1 where "pay_routed svc lib invoice w p mid invoice1 w'"
        "pay_failed svc invoice w p mid invoice1 resp err invoice' w'"
    | (settled) p mid invoice1 where "pay_routed svc lib invoice w p mid invoice1 w'"
        "pay_settled svc invoice w p mid invoice1 resp err invoice' w'"
    by blast
  then show ?thesis
  proof cases
    case early
    then have "transaction_entries w' = transaction_entries w @ [] @ []" "err \<noteq> None"
      unfolding pay_early_def by auto
    then show ?thesis by (intro fin [of "[]" "[]"]) simp_all
  next
    case failed
    from pay_failed_amounts [OF failed(2) pay_routed_amounts [OF failed(1)]]
    obtain main where m: "transaction_entries w' = transaction_entries w @ main"
        "\<forall>e \<in> set main. te_Amount e = Amount invoice" "err \<noteq> None"
      by blast
    then show ?thesis by (intro fin [of main "[]"]) simp_all
  next
    case settled
    note am = pay_routed_amounts [OF settled(1)]
    from pay_settled_amounts [OF settled(2)] obtain r route where
      r: "resp = Some r" "PaymentRoute r = Some route"
        "IdentityPubkey svc = DestinationPubkeyHex invoice \<longrightarrow> TotalFees route = 0"
      and alt: "err \<noteq> None \<and> transaction_entries w' = transaction_entries w @ (p # mid) @ []
              \<or> (\<exists>f. transaction_entries w' = transaction_entries w @ (p # mid) @ [f]
                    \<and> te_Amount f = TotalFees route \<and> te_ParentID f = te_ID p)"
      by blast
    from alt show ?thesis
    proof
      assume "err \<noteq> None \<and> transaction_entries w' = transaction_entries w @ (p # mid) @ []"
      with am show ?thesis by (intro fin [of "p # mid" "[]"]) simp_all
    next
      assume "\<exists>f. transaction_entries w' = transaction_entries w @ (p # mid) @ [f]
                    \<and> te_Amount f = TotalFees route \<and> te_ParentID f = te_ID p"
      then obtain f where f: "transaction_entries w' = transaction_entries w @ (p # mid) @ [f]"
          "te_Amount f = TotalFees route"
        by blast
      have "\<exists>f' r route. [f] = [f'] \<and> resp = Some r \<and> PaymentRoute r = Some route
                    \<and> te_Amount f' = TotalFees route
                    \<and> (IdentityPubkey svc = DestinationPubkeyHex invoice
                          \<longrightarrow> te_Amount f' = 0)"
        using r f(2) by (intro exI [of _ f] exI [of _ r] exI [of _ route]) simp
      then show ?thesis
        using f(1) am by (intro fin [of "p # mid" "[f]"]) simp_all
    qed
  qed
qed

theorem PayInvoice_entry_amounts_witness:
  "\<exists>main f. transaction_entries (snd (snd (PayInvoice svc_ok sample_lib
                 (outgoing_invoice 2 ''02aa'') (sample_world 1000))))
               = transaction_entries (sample_world 1000) @ main @ [f]
        \<and> (\<forall>e \<in> set main. te_Amount e = 500) \<and> te_Amount f = 0"
proof -
  let ?w = "sample_world 1000"
  let ?i = "outgoing_invoice 2 ''02aa''"
  have ev: "snd (fst (PayInvoice svc_ok sample_lib ?i ?w)) = None"
    by (simp add: PayInvoice_def AccountFor_def InsertTransactionEntry_def exec_stmt_def
        balance_guard_rejects_def account_balance_def route_payment_def
        SendInternalPayment_def SelectOpenIncomingInvoice_def
        HandleSuccessfulPayment_def UpdateInvoice_def
        CurrentUserBalance_def fresh_id_def Let_def SendPaymentResponse_zero_def
        sample_world_def outgoing_invoice_def incoming_invoice_def svc_ok_def gateway_ok_def
        sample_lib_def)
  obtain resp err i' w' where run: "PayInvoice svc_ok sample_lib ?i ?w = ((resp, err), i', w')"
    by (metis prod.exhaust)
  with ev have err: "err = None" by simp
  have base: "IdentityPubkey svc_ok = DestinationPubkeyHex ?i" "Amount ?i = 500"
    by (simp_all add: svc_ok_def outgoing_invoice_def)
  from PayInvoice_entry_amounts [OF run] err base run show ?thesis
    by auto
qed


end
